theory Spec2Isabelle
  imports Complex_Main
begin

section \<open>JavaScript numbers and the numeric parsers of the runtime\<close>

text \<open>
  A JavaScript number is an IEEE-754 binary64 value.  The model keeps the exact rational
  value of every finite double, so that the comparisons of the source (\<open><\<close>, \<open><=\<close>,
  \<open>>=\<close>) are comparisons of rationals; the two infinities and NaN are values of their
  own.  Negative zero is identified with zero: the source never divides by a number nor
  inspects its sign bit.
\<close>

datatype number = NaN | PosInf | NegInf | Finite rat

definition pow2 :: "int \<Rightarrow> rat" where
  "pow2 e = (if 0 \<le> e then 2 ^ nat e else 1 / 2 ^ nat (- e))"

text \<open>The number of binary digits of a positive integer (0 for the others).\<close>

function bitlen :: "int \<Rightarrow> int" where
  "bitlen n = (if n \<le> 0 then 0 else 1 + bitlen (n div 2))"
  by pat_completeness auto
termination
  by (relation "measure nat") auto

declare bitlen.simps [simp del]

text \<open>
  For positive \<open>n\<close> and \<open>d\<close>, \<open>binade n d\<close> is the exponent \<open>e\<close> with
  \<open>2^e \<le> n / d < 2^(e+1)\<close>.
\<close>

definition binade :: "int \<Rightarrow> int \<Rightarrow> int" where
  "binade n d =
     (let e0 = bitlen n - bitlen d
      in if (if 0 \<le> e0 then d * 2 ^ nat e0 \<le> n else d \<le> n * 2 ^ nat (- e0)) then e0 else e0 - 1)"

text \<open>The integer nearest to \<open>n / d\<close> (for \<open>d > 0\<close>), ties to the even one.\<close>

definition roundHalfEven :: "int \<Rightarrow> int \<Rightarrow> int" where
  "roundHalfEven n d =
     (let f = n div d; r = n mod d
      in if 2 * r < d then f else if d < 2 * r then f + 1 else if even f then f else f + 1)"

text \<open>
  Rounding of the exact value \<open>n / d\<close> (with \<open>d > 0\<close>) to the nearest double, ties to
  even: 53 significant bits, least exponent \<open>-1074\<close> (subnormals), overflow to an
  infinity when the rounded value reaches \<open>2^1024\<close>.
\<close>

definition toDouble :: "int \<Rightarrow> int \<Rightarrow> number" where
  "toDouble n d =
     (if n = 0 then Finite 0
      else let a = \<bar>n\<bar>;
               p = max (binade a d - 52) (- 1074);
               m = (if 0 \<le> p then roundHalfEven a (d * 2 ^ nat p) else roundHalfEven (a * 2 ^ nat (- p)) d)
           in if 0 \<le> p \<and> 2 ^ 1024 \<le> m * 2 ^ nat p then (if n < 0 then NegInf else PosInf)
              else Finite ((if n < 0 then - of_int m else of_int m) * pow2 p))"

definition isDigit :: "char \<Rightarrow> bool" where
  "isDigit c = (48 \<le> (of_char c :: int) \<and> (of_char c :: int) \<le> 57)"

text \<open>White space of the ASCII range (TAB, LF, VT, FF, CR, SP); strings are ASCII here.\<close>

definition isWhiteSpace :: "char \<Rightarrow> bool" where
  "isWhiteSpace c = ((9 \<le> (of_char c :: int) \<and> (of_char c :: int) \<le> 13) \<or> (of_char c :: int) = 32)"

definition digitsValue :: "string \<Rightarrow> int" where
  "digitsValue ds = foldl (\<lambda>a c. 10 * a + ((of_char c :: int) - 48)) 0 ds"

text \<open>
  The optional exponent part of a decimal literal: \<open>e\<close> or \<open>E\<close>, an optional sign, and
  at least one digit; anything else is not part of the literal and counts as exponent 0.
\<close>

definition exponentPart :: "string \<Rightarrow> int" where
  "exponentPart r =
     (case r of
        [] \<Rightarrow> 0
      | c # t \<Rightarrow>
          if c = CHR ''e'' \<or> c = CHR ''E'' then
            (case t of
               [] \<Rightarrow> 0
             | s # u \<Rightarrow>
                 if s = CHR ''-'' then (if takeWhile isDigit u = [] then 0 else - digitsValue (takeWhile isDigit u))
                 else if s = CHR ''+'' then (if takeWhile isDigit u = [] then 0 else digitsValue (takeWhile isDigit u))
                 else digitsValue (takeWhile isDigit t))
          else 0)"

text \<open>
  \<open>parseFloat\<close> of ECMAScript: skip leading white space, take the longest prefix that is
  a decimal literal (sign, \<open>Infinity\<close>, or digits with an optional fraction and
  exponent), and round its value to a double; NaN when no prefix is a literal.
\<close>

definition unsignedLiteral :: "string \<Rightarrow> number" where
  "unsignedLiteral s =
     (if take 8 s = ''Infinity'' then PosInf
      else let ip = takeWhile isDigit s;
               r1 = dropWhile isDigit s;
               fp = (case r1 of [] \<Rightarrow> [] | c # t \<Rightarrow> if c = CHR ''.'' then takeWhile isDigit t else []);
               r2 = (case r1 of [] \<Rightarrow> [] | c # t \<Rightarrow> if c = CHR ''.'' then dropWhile isDigit t else r1)
           in if ip = [] \<and> fp = [] then NaN
              else let e = exponentPart r2 - int (length fp)
                   in if 0 \<le> e then toDouble (digitsValue (ip @ fp) * 10 ^ nat e) 1
                      else toDouble (digitsValue (ip @ fp)) (10 ^ nat (- e)))"

definition negate :: "number \<Rightarrow> number" where
  "negate n = (case n of NaN \<Rightarrow> NaN | PosInf \<Rightarrow> NegInf | NegInf \<Rightarrow> PosInf | Finite q \<Rightarrow> Finite (- q))"

definition parseFloat :: "string \<Rightarrow> number" where
  "parseFloat input =
     (case dropWhile isWhiteSpace input of
        [] \<Rightarrow> NaN
      | c # t \<Rightarrow>
          if c = CHR ''-'' then negate (unsignedLiteral t)
          else if c = CHR ''+'' then unsignedLiteral t
          else unsignedLiteral (c # t))"

text \<open>
  \<open>parseInt(s, 10)\<close>: leading white space, an optional sign, and the longest run of
  decimal digits; NaN when there is no digit.
\<close>

definition parseInt10 :: "string \<Rightarrow> number" where
  "parseInt10 input =
     (let s = dropWhile isWhiteSpace input;
          neg = (case s of [] \<Rightarrow> False | c # t \<Rightarrow> c = CHR ''-'');
          r = (case s of [] \<Rightarrow> [] | c # t \<Rightarrow> if c = CHR ''-'' \<or> c = CHR ''+'' then t else s);
          ds = takeWhile isDigit r
      in if ds = [] then NaN
         else if neg then negate (toDouble (digitsValue ds) 1) else toDouble (digitsValue ds) 1)"

text \<open>The relational operators and the product of numbers; every comparison with NaN is false.\<close>

fun numLess :: "number \<Rightarrow> number \<Rightarrow> bool" where
  "numLess NaN b = False"
| "numLess a NaN = False"
| "numLess PosInf b = False"
| "numLess a NegInf = False"
| "numLess NegInf b = True"
| "numLess a PosInf = True"
| "numLess (Finite x) (Finite y) = (x < y)"

fun numLessEq :: "number \<Rightarrow> number \<Rightarrow> bool" where
  "numLessEq NaN b = False"
| "numLessEq a NaN = False"
| "numLessEq NegInf b = True"
| "numLessEq a PosInf = True"
| "numLessEq PosInf b = False"
| "numLessEq a NegInf = False"
| "numLessEq (Finite x) (Finite y) = (x \<le> y)"

definition numGreaterEq :: "number \<Rightarrow> number \<Rightarrow> bool" where
  "numGreaterEq a b = numLessEq b a"

definition isNaN :: "number \<Rightarrow> bool" where
  "isNaN n = (n = NaN)"

definition signOf :: "number \<Rightarrow> int" where
  "signOf n = (case n of NaN \<Rightarrow> 0 | PosInf \<Rightarrow> 1 | NegInf \<Rightarrow> - 1 | Finite q \<Rightarrow> sgn (fst (quotient_of q)))"

definition numTimes :: "number \<Rightarrow> number \<Rightarrow> number" where
  "numTimes a b =
     (case (a, b) of
        (Finite x, Finite y) \<Rightarrow> toDouble (fst (quotient_of (x * y))) (snd (quotient_of (x * y)))
      | _ \<Rightarrow>
          if a = NaN \<or> b = NaN \<or> signOf a * signOf b = 0 then NaN
          else if signOf a * signOf b < 0 then NegInf else PosInf)"

text \<open>Truthiness of a number: every number but 0 and NaN.\<close>

definition truthyNum :: "number \<Rightarrow> bool" where
  "truthyNum n = (n \<noteq> NaN \<and> n \<noteq> Finite 0)"

section \<open>Loosely typed payload values\<close>

text \<open>
  An optional property is an \<open>option\<close>: \<open>None\<close> is \<open>undefined\<close>.  The operator \<open>||\<close>
  yields its right operand when the left one is falsy: \<open>undefined\<close>, the empty string,
  \<open>false\<close>, 0 or NaN.
\<close>

definition truthyStr :: "string option \<Rightarrow> bool" where
  "truthyStr v = (case v of None \<Rightarrow> False | Some s \<Rightarrow> s \<noteq> [])"

definition orStr :: "string option \<Rightarrow> string \<Rightarrow> string" where
  "orStr v d = (case v of None \<Rightarrow> d | Some s \<Rightarrow> if s \<noteq> [] then s else d)"

definition orStrOpt :: "string option \<Rightarrow> string option \<Rightarrow> string option" where
  "orStrOpt v d = (if truthyStr v then v else d)"

definition orNum :: "number option \<Rightarrow> number \<Rightarrow> number" where
  "orNum v d = (case v of None \<Rightarrow> d | Some n \<Rightarrow> if truthyNum n then n else d)"

definition orBool :: "bool option \<Rightarrow> bool \<Rightarrow> bool" where
  "orBool v d = (case v of None \<Rightarrow> d | Some b \<Rightarrow> if b then b else d)"

text \<open>A value used as a string: \<open>undefined\<close> converts to the text \<open>undefined\<close>.\<close>

definition asString :: "string option \<Rightarrow> string" where
  "asString v = (case v of None \<Rightarrow> ''undefined'' | Some s \<Rightarrow> s)"

definition orList :: "'a list option \<Rightarrow> 'a list \<Rightarrow> 'a list" where
  "orList v d = (case v of None \<Rightarrow> d | Some xs \<Rightarrow> xs)"

text \<open>
  The three list-valued properties of an upstream market arrive either as an array of
  strings, or as a string holding the JSON text of one, or not at all, or as any other
  JSON value.  Arrays hold strings, as the interface \<open>GammaMarket\<close> declares.
\<close>

datatype field = Undefined | Null | Boolean bool | Num number | Str string | Arr "string list" | Obj

definition truthy :: "field \<Rightarrow> bool" where
  "truthy v =
     (case v of
        Undefined \<Rightarrow> False
      | Null \<Rightarrow> False
      | Boolean b \<Rightarrow> b
      | Num n \<Rightarrow> truthyNum n
      | Str s \<Rightarrow> s \<noteq> []
      | Arr xs \<Rightarrow> True
      | Obj \<Rightarrow> True)"

text \<open>Reading an array at an index: \<open>undefined\<close> beyond its end.\<close>

definition elemAt :: "'a list \<Rightarrow> nat \<Rightarrow> 'a option" where
  "elemAt xs i = (if i < length xs then Some (xs ! i) else None)"

text \<open>\<open>toLowerCase\<close> on ASCII letters.\<close>

definition toLowerCase :: "string \<Rightarrow> string" where
  "toLowerCase s =
     map (\<lambda>c. if 65 \<le> (of_char c :: nat) \<and> (of_char c :: nat) \<le> 90 then char_of ((of_char c :: nat) + 32) else c) s"

section \<open>JSON values\<close>

text \<open>
  \<open>JSON.parse\<close> yields a JSON value: \<open>null\<close>, a boolean, a number, a string, an array
  of values, or an object, which is the list of its members in the order of the text (a
  later member of the same name overrides an earlier one).
\<close>

datatype json = JNull | JBool bool | JNum number | JStr string | JArr "json list" | JObj "(string \<times> json) list"

text \<open>
  The errors the language itself throws in the normaliser: reading a property (named by
  its key) of \<open>null\<close>, converting to a primitive an object that has none, and growing an
  array beyond the greatest length of an array.
\<close>

datatype jsError = NullRead string | NotPrimitive | InvalidArrayLength

text \<open>
  The functions of the JavaScript runtime that the model takes as given:
  \<open>JSON.parse\<close> on the text of a list-valued property (\<open>None\<close> when it throws),
  \<open>Number.prototype.toString\<close>, and the message of each error of the language (the
  handlers of the tools read the message of what was thrown).
\<close>

record Runtime =
  JSON_parse :: "string \<Rightarrow> json option"
  Number_toString :: "number \<Rightarrow> string"
  errorMessage :: "jsError \<Rightarrow> string"

text \<open>Truthiness of a JSON value: arrays and objects are truthy, also when empty.\<close>

definition truthyJson :: "json \<Rightarrow> bool" where
  "truthyJson v =
     (case v of
        JNull \<Rightarrow> False
      | JBool b \<Rightarrow> b
      | JNum n \<Rightarrow> truthyNum n
      | JStr s \<Rightarrow> s \<noteq> []
      | JArr xs \<Rightarrow> True
      | JObj kvs \<Rightarrow> True)"

text \<open>The member of an object under a key, \<open>undefined\<close> when it has none.\<close>

definition ownProperty :: "(string \<times> json) list \<Rightarrow> string \<Rightarrow> json option" where
  "ownProperty kvs k = map_of (rev kvs) k"

text \<open>The decimal digits of an array index, the key under which an object holds it.\<close>

fun decimal :: "nat \<Rightarrow> string" where
  "decimal n = (if n < 10 then [char_of (48 + n)] else decimal (n div 10) @ [char_of (48 + n mod 10)])"

declare decimal.simps [simp del]

text \<open>
  \<open>v[i]\<close> and \<open>v.length\<close>: a TypeError on \<open>null\<close>; \<open>undefined\<close> on a boolean or a
  number; the character and the length of a string; the element and the length of an
  array; the member of that name of an object.
\<close>

definition readIndex :: "Runtime \<Rightarrow> json \<Rightarrow> nat \<Rightarrow> string + json option" where
  "readIndex rt v i =
     (case v of
        JNull \<Rightarrow> Inl (errorMessage rt (NullRead (decimal i)))
      | JBool b \<Rightarrow> Inr None
      | JNum n \<Rightarrow> Inr None
      | JStr s \<Rightarrow> Inr (if i < length s then Some (JStr [s ! i]) else None)
      | JArr xs \<Rightarrow> Inr (elemAt xs i)
      | JObj kvs \<Rightarrow> Inr (ownProperty kvs (decimal i)))"

definition readLength :: "Runtime \<Rightarrow> json \<Rightarrow> string + json option" where
  "readLength rt v =
     (case v of
        JNull \<Rightarrow> Inl (errorMessage rt (NullRead ''length''))
      | JBool b \<Rightarrow> Inr None
      | JNum n \<Rightarrow> Inr None
      | JStr s \<Rightarrow> Inr (Some (JNum (Finite (of_nat (length s)))))
      | JArr xs \<Rightarrow> Inr (Some (JNum (Finite (of_nat (length xs)))))
      | JObj kvs \<Rightarrow> Inr (ownProperty kvs ''length''))"

text \<open>
  The conversion of a value to a string.  An array joins the strings of its elements
  with commas, \<open>null\<close> counting as the empty string.  An object parsed from a text has
  no callable member: it converts to \<open>[object Object]\<close>, unless a member of its own
  hides \<open>toString\<close>, and then the conversion throws a TypeError.
\<close>

fun toStr :: "Runtime \<Rightarrow> json \<Rightarrow> string + string"
  and joinItems :: "Runtime \<Rightarrow> json list \<Rightarrow> string + string" where
  "toStr rt JNull = Inr ''null''"
| "toStr rt (JBool b) = Inr (if b then ''true'' else ''false'')"
| "toStr rt (JNum n) = Inr (Number_toString rt n)"
| "toStr rt (JStr s) = Inr s"
| "toStr rt (JArr xs) = joinItems rt xs"
| "toStr rt (JObj kvs) =
     (if ownProperty kvs ''toString'' = None then Inr ''[object Object]''
      else Inl (errorMessage rt NotPrimitive))"
| "joinItems rt [] = Inr []"
| "joinItems rt (x # xs) =
     (case (if x = JNull then Inr [] else toStr rt x) of
        Inl e \<Rightarrow> Inl e
      | Inr s \<Rightarrow>
          if xs = [] then Inr s
          else (case joinItems rt xs of Inl e \<Rightarrow> Inl e | Inr t \<Rightarrow> Inr (s @ '','' @ t)))"

text \<open>
  The conversion of a string to a number, which reads the whole string: white space
  around it is dropped, the empty string is 0, a literal with prefix \<open>0x\<close>, \<open>0o\<close> or
  \<open>0b\<close> is an integer in that radix, anything else is a decimal literal or NaN.
  \<open>literalRest\<close> is what follows the longest decimal literal that starts a string.
\<close>

definition exponentRest :: "string \<Rightarrow> string" where
  "exponentRest r =
     (case r of
        [] \<Rightarrow> []
      | c # t \<Rightarrow>
          if c = CHR ''e'' \<or> c = CHR ''E'' then
            (case t of
               [] \<Rightarrow> r
             | s # u \<Rightarrow>
                 if s = CHR ''-'' \<or> s = CHR ''+'' then (if takeWhile isDigit u = [] then r else dropWhile isDigit u)
                 else if takeWhile isDigit t = [] then r else dropWhile isDigit t)
          else r)"

definition unsignedRest :: "string \<Rightarrow> string option" where
  "unsignedRest s =
     (if take 8 s = ''Infinity'' then Some (drop 8 s)
      else let ip = takeWhile isDigit s;
               r1 = dropWhile isDigit s;
               fp = (case r1 of [] \<Rightarrow> [] | c # t \<Rightarrow> if c = CHR ''.'' then takeWhile isDigit t else []);
               r2 = (case r1 of [] \<Rightarrow> [] | c # t \<Rightarrow> if c = CHR ''.'' then dropWhile isDigit t else r1)
           in if ip = [] \<and> fp = [] then None else Some (exponentRest r2))"

definition literalRest :: "string \<Rightarrow> string option" where
  "literalRest s =
     (case s of
        [] \<Rightarrow> None
      | c # t \<Rightarrow> if c = CHR ''-'' \<or> c = CHR ''+'' then unsignedRest t else unsignedRest (c # t))"

definition digitOf :: "char \<Rightarrow> int" where
  "digitOf c =
     (if 48 \<le> (of_char c :: int) \<and> (of_char c :: int) \<le> 57 then of_char c - 48
      else if 97 \<le> (of_char c :: int) \<and> (of_char c :: int) \<le> 102 then of_char c - 87
      else if 65 \<le> (of_char c :: int) \<and> (of_char c :: int) \<le> 70 then of_char c - 55
      else 16)"

definition radixLiteral :: "int \<Rightarrow> string \<Rightarrow> number" where
  "radixLiteral b ds =
     (if ds \<noteq> [] \<and> list_all (\<lambda>c. digitOf c < b) ds then toDouble (foldl (\<lambda>a c. b * a + digitOf c) 0 ds) 1
      else NaN)"

definition stringToNumber :: "string \<Rightarrow> number" where
  "stringToNumber s =
     (let t = rev (dropWhile isWhiteSpace (rev (dropWhile isWhiteSpace s)))
      in if t = [] then Finite 0
         else if take 2 t = ''0x'' \<or> take 2 t = ''0X'' then radixLiteral 16 (drop 2 t)
         else if take 2 t = ''0o'' \<or> take 2 t = ''0O'' then radixLiteral 8 (drop 2 t)
         else if take 2 t = ''0b'' \<or> take 2 t = ''0B'' then radixLiteral 2 (drop 2 t)
         else if literalRest t = Some [] then parseFloat t
         else NaN)"

text \<open>
  The conversion to a number of what was read as a length (\<open>None\<close> is \<open>undefined\<close>);
  an array or an object converts through its string.
\<close>

definition toNumber :: "Runtime \<Rightarrow> json option \<Rightarrow> string + number" where
  "toNumber rt v =
     (case v of
        None \<Rightarrow> Inr NaN
      | Some JNull \<Rightarrow> Inr (Finite 0)
      | Some (JBool b) \<Rightarrow> Inr (Finite (if b then 1 else 0))
      | Some (JNum n) \<Rightarrow> Inr n
      | Some (JStr s) \<Rightarrow> Inr (stringToNumber s)
      | Some (JArr xs) \<Rightarrow> (case toStr rt (JArr xs) of Inl e \<Rightarrow> Inl e | Inr s \<Rightarrow> Inr (stringToNumber s))
      | Some (JObj kvs) \<Rightarrow> (case toStr rt (JObj kvs) of Inl e \<Rightarrow> Inl e | Inr s \<Rightarrow> Inr (stringToNumber s)))"

section \<open>Market normalisation\<close>

record GammaMarket =
  conditionId :: string
  question :: string
  slug :: string
  volume :: string
  endDate :: string
  active :: bool
  closed :: bool
  clobTokenIds :: field
  outcomes :: field
  outcomePrices :: field

record Token =
  token_id :: json
  outcome :: "json option"
  price :: number

record Market =
  condition_id :: string
  m_question :: string
  tokens :: "Token list"
  m_volume :: string
  end_date :: string
  m_active :: bool
  m_closed :: bool

text \<open>
  \<open>parseJsonField\<close> returns what \<open>JSON.parse\<close> makes of a string, whatever value that
  is, an array as it is, and the fallback for anything else and for a string that does
  not parse.  An array of the payload holds strings, as the interface \<open>GammaMarket\<close>
  declares, and so do the fallbacks.
\<close>

definition parseJsonField :: "Runtime \<Rightarrow> field \<Rightarrow> string list \<Rightarrow> json" where
  "parseJsonField rt v fallback =
     (case v of
        Str s \<Rightarrow> (case JSON_parse rt s of Some parsed \<Rightarrow> parsed | None \<Rightarrow> JArr (map JStr fallback))
      | Arr xs \<Rightarrow> JArr (map JStr xs)
      | _ \<Rightarrow> JArr (map JStr fallback))"

text \<open>The condition \<open>i < outcomes.length\<close> of the loop, evaluated before each round.\<close>

definition indexBelowLength :: "Runtime \<Rightarrow> nat \<Rightarrow> json \<Rightarrow> string + bool" where
  "indexBelowLength rt i outs =
     (case readLength rt outs of
        Inl e \<Rightarrow> Inl e
      | Inr len \<Rightarrow>
          (case toNumber rt len of
             Inl e \<Rightarrow> Inl e
           | Inr bound \<Rightarrow> Inr (numLess (Finite (of_nat i)) bound)))"

text \<open>
  The token of one round: \<open>tokenIds[i] || ""\<close>, then \<open>outcomes[i]\<close>, then
  \<open>prices[i] ? parseFloat(prices[i]) : 0\<close>, where \<open>parseFloat\<close> converts its argument
  to a string first.
\<close>

definition priceOf :: "Runtime \<Rightarrow> json option \<Rightarrow> string + number" where
  "priceOf rt p =
     (case p of
        None \<Rightarrow> Inr (Finite 0)
      | Some v \<Rightarrow>
          if truthyJson v then (case toStr rt v of Inl e \<Rightarrow> Inl e | Inr s \<Rightarrow> Inr (parseFloat s))
          else Inr (Finite 0))"

definition buildToken :: "Runtime \<Rightarrow> json \<Rightarrow> json \<Rightarrow> json \<Rightarrow> nat \<Rightarrow> string + Token" where
  "buildToken rt outs prices tokenIds i =
     (case readIndex rt tokenIds i of
        Inl e \<Rightarrow> Inl e
      | Inr tokenId \<Rightarrow>
          (case readIndex rt outs i of
             Inl e \<Rightarrow> Inl e
           | Inr label \<Rightarrow>
               (case readIndex rt prices i of
                  Inl e \<Rightarrow> Inl e
                | Inr p \<Rightarrow>
                    (case priceOf rt p of
                       Inl e \<Rightarrow> Inl e
                     | Inr value \<Rightarrow>
                         Inr \<lparr>token_id = (case tokenId of
                                             None \<Rightarrow> JStr []
                                           | Some v \<Rightarrow> if truthyJson v then v else JStr []),
                              outcome = label,
                              price = value\<rparr>))))"

definition isArray :: "json \<Rightarrow> bool" where
  "isArray v = (case v of JArr xs \<Rightarrow> True | _ \<Rightarrow> False)"

text \<open>
  The \<open>for\<close> loop of \<open>formatMarket\<close>: while the index is below \<open>outcomes.length\<close>, one
  token is built and pushed.  An array has at most \<open>2^32 - 1\<close> elements, and a push
  beyond throws a RangeError.  Only a length that is not the length of an array can
  drive the loop that far, since an array given as outcomes is no longer than that
  itself; the limits of storage are outside the model.
\<close>

function formatMarket_loop ::
  "Runtime \<Rightarrow> nat \<Rightarrow> json \<Rightarrow> json \<Rightarrow> json \<Rightarrow> Token list \<Rightarrow> string + Token list" where
  "formatMarket_loop rt i outs prices tokenIds toks =
     (case indexBelowLength rt i outs of
        Inl e \<Rightarrow> Inl e
      | Inr below \<Rightarrow>
          if below then
            (case buildToken rt outs prices tokenIds i of
               Inl e \<Rightarrow> Inl e
             | Inr t \<Rightarrow>
                 if \<not> isArray outs \<and> 4294967295 \<le> int (length toks) then Inl (errorMessage rt InvalidArrayLength)
                 else formatMarket_loop rt (i + 1) outs prices tokenIds (toks @ [t]))
          else Inr toks)"
  by pat_completeness auto
termination
proof (relation "measure (\<lambda>(rt, i, outs, prices, tokenIds, toks).
         case outs of JArr xs \<Rightarrow> length xs - i | _ \<Rightarrow> 4294967295 - length toks)")
  show "wf (measure (\<lambda>(rt, i, outs, prices, tokenIds, toks).
         case outs of JArr xs \<Rightarrow> length xs - i | _ \<Rightarrow> 4294967295 - length toks))"
    by simp
next
  fix rt :: Runtime and i :: nat and outs prices tokenIds :: json and toks :: "Token list"
    and below :: bool and t :: Token
  assume "indexBelowLength rt i outs = Inr below" and "below"
    and "\<not> (\<not> isArray outs \<and> 4294967295 \<le> int (length toks))"
  then show "((rt, i + 1, outs, prices, tokenIds, toks @ [t]), (rt, i, outs, prices, tokenIds, toks))
        \<in> measure (\<lambda>(rt, i, outs, prices, tokenIds, toks).
             case outs of JArr xs \<Rightarrow> length xs - i | _ \<Rightarrow> 4294967295 - length toks)"
    by (cases outs) (auto simp: indexBelowLength_def readLength_def toNumber_def isArray_def)
qed

declare formatMarket_loop.simps [simp del]

definition formatMarket :: "Runtime \<Rightarrow> GammaMarket \<Rightarrow> string + Market" where
  "formatMarket rt market =
     (let outs = parseJsonField rt (outcomes market) [''Yes'', ''No''];
          prices = parseJsonField rt (outcomePrices market) [];
          tokenIds = parseJsonField rt (clobTokenIds market) []
      in case formatMarket_loop rt 0 outs prices tokenIds [] of
           Inl e \<Rightarrow> Inl e
         | Inr toks \<Rightarrow>
             Inr \<lparr>condition_id = conditionId market,
                  m_question = question market,
                  tokens = toks,
                  m_volume = orStr (Some (volume market)) ''0'',
                  end_date = orStr (Some (endDate market)) [],
                  m_active = active market,
                  m_closed = closed market\<rparr>)"

text \<open>\<open>markets.map(formatMarket)\<close>: the first market that throws ends the mapping.\<close>

fun formatAll :: "Runtime \<Rightarrow> GammaMarket list \<Rightarrow> string + Market list" where
  "formatAll rt [] = Inr []"
| "formatAll rt (m # ms) =
     (case formatMarket rt m of
        Inl e \<Rightarrow> Inl e
      | Inr x \<Rightarrow> (case formatAll rt ms of Inl e \<Rightarrow> Inl e | Inr xs \<Rightarrow> Inr (x # xs)))"

section \<open>Payloads of the trading client and shapes of the tool output\<close>

record RawOrderbookEntry =
  e_price :: string
  e_size :: string

record RawOrderbook =
  bids :: "RawOrderbookEntry list option"
  asks :: "RawOrderbookEntry list option"

record RawBalanceAllowance =
  balance :: "string option"
  allowance :: "string option"

record RawOpenOrder =
  oo_id :: string
  oo_asset_id :: string
  oo_side :: string
  oo_price :: string
  oo_original_size :: string
  oo_size_matched :: string
  oo_outcome :: "string option"
  oo_market :: "string option"

record RawTrade =
  tr_id :: string
  tr_asset_id :: string
  tr_side :: string
  tr_price :: string
  tr_size :: string
  tr_timestamp :: "string option"
  tr_match_time :: "string option"
  tr_status :: string

record RawOrderResponse =
  orderID :: "string option"
  resp_status :: "string option"
  errorMsg :: "string option"

record RawMarketInfo =
  minimum_tick_size :: "number option"
  neg_risk :: "bool option"

datatype ClobSide = BUY | SELL

record OrderArgs =
  tokenID :: string
  a_side :: ClobSide
  a_size :: number
  a_price :: number
  feeRateBps :: number

record Position =
  pos_token_id :: string
  pos_market :: string
  pos_outcome :: string
  pos_size :: string
  pos_avg_price :: string

record FormattedOrder =
  fo_id :: string
  fo_token_id :: string
  fo_side :: string
  fo_price :: string
  fo_size :: string
  fo_filled :: string

record FormattedTrade =
  ft_id :: string
  ft_token_id :: string
  ft_side :: string
  ft_price :: string
  ft_size :: string
  ft_timestamp :: string
  ft_status :: string

record OrderDetails =
  od_token_id :: string
  od_side :: string
  od_size :: string
  od_price :: string
  tick_size :: number
  od_neg_risk :: bool

record OrderResult =
  order_id :: string
  order_status :: string
  message :: "string option"
  order_details :: OrderDetails

text \<open>
  The data handed to \<open>toolResult\<close>, one constructor for each shape the tools build
  (\<open>'r\<close> is the raw answer of the cancellation).  The source serialises it with
  \<open>JSON.stringify\<close> into the text of the envelope; the model keeps the data, and
  \<open>isError\<close> is \<open>False\<close> where the envelope has no such property.
\<close>

datatype 'r payload =
    ErrorData string
  | MarketsData "Market list"
  | MarketData Market
  | OrderbookData string "RawOrderbookEntry list" "RawOrderbookEntry list"
  | BalanceData string string string
  | PositionsData "Position list" "FormattedOrder list"
  | TradesData "FormattedTrade list"
  | OrderData OrderResult
  | CancelData string string 'r

record 'r ToolResult =
  content :: "'r payload"
  isError :: bool

definition toolResult :: "'r payload \<Rightarrow> bool \<Rightarrow> 'r ToolResult" where
  "toolResult data err = \<lparr>content = data, isError = err\<rparr>"

definition errorResult :: "string \<Rightarrow> 'r ToolResult" where
  "errorResult msg = toolResult (ErrorData msg) True"

section \<open>The collaborators: trading client and HTTP transport\<close>

text \<open>
  A call of a collaborator either throws or returns: \<open>Inl\<close> carries the message of
  the thrown error (what the handlers of the source read off it), \<open>Inr\<close> the value.
  A request of the market-data API is kept structured instead of as the text of its URL:
  the base URL with the query parameters \<open>limit\<close>, \<open>offset\<close> and \<open>slug_contains\<close> of
  the listing (\<open>closed=false\<close> is constant), or with the condition id of one market.
\<close>

datatype request =
    MarketsRequest string number number "string option"
  | MarketRequest string string

record 'b Response =
  status :: nat
  statusText :: string
  json :: "string + 'b"

definition ok :: "'b Response \<Rightarrow> bool" where
  "ok response = (200 \<le> status response \<and> status response \<le> 299)"

text \<open>
  The wrapper of the trading client (\<open>'s\<close> is a signed order).  \<open>getClient()\<close> gives the
  underlying client, whose methods are fields of the same record; the getters cannot
  fail.  \<open>getOpenOrders\<close> and \<open>getTrades\<close> may resolve to no array at all (\<open>None\<close>).
  A method answers as a function of its arguments; no tool calls a method twice.
\<close>

record ('s, 'r) ClobClientWrapper =
  initialize :: "string + unit"
  ensureWriteAccess :: "string + unit"
  getGammaApiUrl :: string
  getFunder :: string
  getOrderBook :: "string \<Rightarrow> string + RawOrderbook"
  getBalanceAllowance :: "string + RawBalanceAllowance"
  getOpenOrders :: "string + RawOpenOrder list option"
  getTrades :: "string + RawTrade list option"
  getMarket :: "string \<Rightarrow> string + RawMarketInfo"
  createOrder :: "OrderArgs \<Rightarrow> string + 's"
  postOrder :: "'s \<Rightarrow> string + RawOrderResponse"
  cancelOrder :: "string \<Rightarrow> string + 'r"

text \<open>
  The global \<open>fetch\<close>, at the two types of body the source reads: the listing (\<open>None\<close>
  for a body that is not an array) and the single market (\<open>None\<close> for \<open>null\<close>).
\<close>

record Network =
  fetch_list :: "request \<Rightarrow> string + GammaMarket list option Response"
  fetch_one :: "request \<Rightarrow> string + GammaMarket option Response"

text \<open>Every call a tool issues on a collaborator, in the order issued.\<close>

datatype 's call =
    Initialize
  | EnsureWriteAccess
  | Fetch request
  | GetOrderBook string
  | GetBalanceAllowance
  | GetOpenOrders
  | GetTrades
  | GetMarket string
  | CreateOrder OrderArgs
  | PostOrder 's
  | CancelOrder string

text \<open>
  A computation is the list of calls it issued and its outcome.  \<open>andThen\<close> is sequencing
  (a thrown error skips the rest), \<open>invoke\<close> a call on a collaborator, \<open>settle\<close> an
  outcome obtained without a call, \<open>guarded\<close> the \<open>try\<close>/\<open>catch\<close> around every tool
  body, which turns a thrown error into an error envelope.
\<close>

type_synonym ('s, 'a) io = "'s call list \<times> (string + 'a)"

definition resolve :: "'a \<Rightarrow> ('s, 'a) io" where
  "resolve x = ([], Inr x)"

definition throw :: "string \<Rightarrow> ('s, 'a) io" where
  "throw e = ([], Inl e)"

definition settle :: "string + 'a \<Rightarrow> ('s, 'a) io" where
  "settle out = ([], out)"

definition invoke :: "'s call \<Rightarrow> string + 'a \<Rightarrow> ('s, 'a) io" where
  "invoke c out = ([c], out)"

definition andThen :: "('s, 'a) io \<Rightarrow> ('a \<Rightarrow> ('s, 'b) io) \<Rightarrow> ('s, 'b) io" where
  "andThen m f =
     (case snd m of
        Inl e \<Rightarrow> (fst m, Inl e)
      | Inr x \<Rightarrow> (fst m @ fst (f x), snd (f x)))"

definition guarded :: "('s, 'r ToolResult) io \<Rightarrow> 's call list \<times> 'r ToolResult" where
  "guarded m = (case snd m of Inl e \<Rightarrow> (fst m, errorResult e) | Inr r \<Rightarrow> (fst m, r))"

text \<open>
  \<open>xs.slice(0, end)\<close>: the end is truncated to an integer (NaN counts as 0), a negative
  end counts from the end of the array, and the result is clamped to the array.
\<close>

definition slice0 :: "'a list \<Rightarrow> number \<Rightarrow> 'a list" where
  "slice0 xs e =
     (case e of
        NaN \<Rightarrow> []
      | PosInf \<Rightarrow> xs
      | NegInf \<Rightarrow> []
      | Finite q \<Rightarrow>
          (let k = (if 0 \<le> q then \<lfloor>q\<rfloor> else \<lceil>q\<rceil>)
           in if k < 0 then take (nat (int (length xs) + k)) xs else take (nat k) xs))"

section \<open>The tools\<close>

text \<open>
  The parameters of a tool call, \<open>Record<string, unknown>\<close> in the source, at the types
  the schemas of the tools declare; \<open>None\<close> is a property not given.
\<close>

record Params =
  p_limit :: "number option"
  p_offset :: "number option"
  p_search :: "string option"
  p_condition_id :: "string option"
  p_token_id :: "string option"
  p_side :: "string option"
  p_size :: "string option"
  p_price :: "string option"
  p_order_id :: "string option"

definition fetchGammaMarkets ::
  "('s, 'r) ClobClientWrapper \<Rightarrow> Network \<Rightarrow> number \<Rightarrow> number \<Rightarrow> string option \<Rightarrow> ('s, GammaMarket list) io" where
  "fetchGammaMarkets client net limit offset search =
     (let baseUrl = getGammaApiUrl client;
          req = MarketsRequest baseUrl (numTimes limit (Finite 3)) offset
                  (if truthyStr search then Some (toLowerCase (asString search)) else None)
      in andThen (invoke (Fetch req) (fetch_list net req)) (\<lambda>response.
           if \<not> ok response then throw (''Failed to fetch markets: '' @ statusText response)
           else andThen (settle (json response)) (\<lambda>data.
             case data of
               None \<Rightarrow> resolve []
             | Some ms \<Rightarrow> resolve (slice0 (filter (\<lambda>m. \<not> closed m \<and> truthy (clobTokenIds m)) ms) limit))))"

definition fetchGammaMarket ::
  "('s, 'r) ClobClientWrapper \<Rightarrow> Network \<Rightarrow> string \<Rightarrow> ('s, GammaMarket option) io" where
  "fetchGammaMarket client net cid =
     (let baseUrl = getGammaApiUrl client;
          req = MarketRequest baseUrl cid
      in andThen (invoke (Fetch req) (fetch_one net req)) (\<lambda>response.
           if \<not> ok response then
             (if status response = 404 then resolve None
              else throw (''Failed to fetch market: '' @ statusText response))
           else settle (json response)))"

definition get_markets_execute ::
  "('s, 'r) ClobClientWrapper \<Rightarrow> Network \<Rightarrow> Runtime \<Rightarrow> string \<Rightarrow> Params \<Rightarrow> 's call list \<times> 'r ToolResult" where
  "get_markets_execute client net rt tid params =
     guarded (andThen (invoke Initialize (initialize client)) (\<lambda>_.
       let limit = orNum (p_limit params) (Finite 10);
           offset = orNum (p_offset params) (Finite 0);
           search = p_search params
       in andThen (fetchGammaMarkets client net limit offset search) (\<lambda>markets.
            andThen (settle (formatAll rt markets)) (\<lambda>formatted.
              resolve (toolResult (MarketsData formatted) False)))))"

definition get_market_execute ::
  "('s, 'r) ClobClientWrapper \<Rightarrow> Network \<Rightarrow> Runtime \<Rightarrow> string \<Rightarrow> Params \<Rightarrow> 's call list \<times> 'r ToolResult" where
  "get_market_execute client net rt tid params =
     guarded (andThen (invoke Initialize (initialize client)) (\<lambda>_.
       let conditionId = p_condition_id params
       in if \<not> truthyStr conditionId then resolve (errorResult ''condition_id is required'')
          else andThen (fetchGammaMarket client net (asString conditionId)) (\<lambda>market.
                 case market of
                   None \<Rightarrow> resolve (errorResult (''Market not found: '' @ asString conditionId))
                 | Some m \<Rightarrow>
                     andThen (settle (formatMarket rt m)) (\<lambda>formatted.
                       resolve (toolResult (MarketData formatted) False)))))"

definition get_orderbook_execute ::
  "('s, 'r) ClobClientWrapper \<Rightarrow> string \<Rightarrow> Params \<Rightarrow> 's call list \<times> 'r ToolResult" where
  "get_orderbook_execute client tid params =
     guarded (andThen (invoke Initialize (initialize client)) (\<lambda>_.
       let tokenId = p_token_id params
       in if \<not> truthyStr tokenId then resolve (errorResult ''token_id is required'')
          else andThen (invoke (GetOrderBook (asString tokenId)) (getOrderBook client (asString tokenId))) (\<lambda>orderbook.
                 resolve (toolResult
                   (OrderbookData (asString tokenId) (orList (bids orderbook) []) (orList (asks orderbook) []))
                   False))))"

definition get_balance_execute ::
  "('s, 'r) ClobClientWrapper \<Rightarrow> string \<Rightarrow> Params \<Rightarrow> 's call list \<times> 'r ToolResult" where
  "get_balance_execute client tid params =
     guarded (andThen (invoke Initialize (initialize client)) (\<lambda>_.
       let funder = getFunder client
       in andThen (invoke GetBalanceAllowance (getBalanceAllowance client)) (\<lambda>balanceData.
            resolve (toolResult
              (BalanceData funder (orStr (balance balanceData) ''0'') (orStr (allowance balanceData) ''0''))
              False))))"

text \<open>
  The position map of \<open>get_positions\<close>: a \<open>Map\<close> keeps its keys in insertion order, so
  it is an association list, extended at its end by the orders whose token is new.
\<close>

fun positionMap_loop :: "RawOpenOrder list \<Rightarrow> (string \<times> Position) list \<Rightarrow> (string \<times> Position) list" where
  "positionMap_loop [] positionMap = positionMap"
| "positionMap_loop (order # rest) positionMap =
     positionMap_loop rest
       (let tokenId = oo_asset_id order
        in if map_of positionMap tokenId = None then
             positionMap @
               [(tokenId,
                 \<lparr>pos_token_id = tokenId,
                  pos_market = orStr (oo_market order) ''Unknown'',
                  pos_outcome = orStr (oo_outcome order) ''Unknown'',
                  pos_size = oo_original_size order,
                  pos_avg_price = oo_price order\<rparr>)]
           else positionMap)"

definition formatOrder :: "RawOpenOrder \<Rightarrow> FormattedOrder" where
  "formatOrder ord =
     \<lparr>fo_id = oo_id ord, fo_token_id = oo_asset_id ord, fo_side = oo_side ord, fo_price = oo_price ord,
      fo_size = oo_original_size ord, fo_filled = oo_size_matched ord\<rparr>"

definition get_positions_execute ::
  "('s, 'r) ClobClientWrapper \<Rightarrow> string \<Rightarrow> Params \<Rightarrow> 's call list \<times> 'r ToolResult" where
  "get_positions_execute client tid params =
     guarded (andThen (invoke Initialize (initialize client)) (\<lambda>_.
       andThen (invoke GetOpenOrders (getOpenOrders client)) (\<lambda>openOrders.
         if openOrders = None \<or> length (orList openOrders []) = 0 then
           resolve (toolResult (PositionsData [] []) False)
         else
           let positionMap = positionMap_loop (orList openOrders []) [];
               formattedOrders = map formatOrder (orList openOrders [])
           in resolve (toolResult (PositionsData (map snd positionMap) formattedOrders) False))))"

definition formatTrade :: "RawTrade \<Rightarrow> FormattedTrade" where
  "formatTrade t =
     \<lparr>ft_id = tr_id t, ft_token_id = tr_asset_id t, ft_side = tr_side t, ft_price = tr_price t,
      ft_size = tr_size t,
      ft_timestamp = orStr (orStrOpt (tr_timestamp t) (tr_match_time t)) [],
      ft_status = tr_status t\<rparr>"

definition get_trades_execute ::
  "('s, 'r) ClobClientWrapper \<Rightarrow> string \<Rightarrow> Params \<Rightarrow> 's call list \<times> 'r ToolResult" where
  "get_trades_execute client tid params =
     guarded (andThen (invoke Initialize (initialize client)) (\<lambda>_.
       let limit = orNum (p_limit params) (Finite 20)
       in andThen (invoke GetTrades (getTrades client)) (\<lambda>allTrades.
            let trades = slice0 (orList allTrades []) limit
            in resolve (toolResult (TradesData (map formatTrade trades)) False))))"

text \<open>
  Order placement.  The inner \<open>try\<close>/\<open>catch\<close> around the market-metadata call keeps the
  defaults when the call throws; \<open>tickDefault\<close> is the literal \<open>0.01\<close>.
\<close>

definition tickDefault :: number where
  "tickDefault = toDouble 1 100"

definition marketMetadata :: "('s, 'r) ClobClientWrapper \<Rightarrow> string \<Rightarrow> ('s, number \<times> bool) io" where
  "marketMetadata client tokenId =
     (case getMarket client tokenId of
        Inl e \<Rightarrow> ([GetMarket tokenId], Inr (tickDefault, False))
      | Inr marketInfo \<Rightarrow>
          ([GetMarket tokenId],
           Inr (orNum (minimum_tick_size marketInfo) tickDefault, orBool (neg_risk marketInfo) False)))"

definition place_order_execute ::
  "('s, 'r) ClobClientWrapper \<Rightarrow> Runtime \<Rightarrow> string \<Rightarrow> Params \<Rightarrow> 's call list \<times> 'r ToolResult" where
  "place_order_execute client rt tid params =
     guarded (andThen (invoke Initialize (initialize client)) (\<lambda>_.
       andThen (invoke EnsureWriteAccess (ensureWriteAccess client)) (\<lambda>_.
         let tokenId = p_token_id params;
             side = p_side params;
             size = parseFloat (asString (p_size params));
             price = parseFloat (asString (p_price params))
         in if \<not> truthyStr tokenId then resolve (errorResult ''token_id is required'')
            else if \<not> truthyStr side then resolve (errorResult ''side is required (BUY or SELL)'')
            else if isNaN size \<or> numLess size (Finite 5) then resolve (errorResult ''size must be at least 5'')
            else if isNaN price \<or> numLessEq price (Finite 0) \<or> numGreaterEq price (Finite 1) then
              resolve (errorResult ''price must be between 0 and 1 (exclusive)'')
            else
              andThen (marketMetadata client (asString tokenId)) (\<lambda>(tickSize, negRisk).
                let orderArgs =
                      \<lparr>tokenID = asString tokenId,
                       a_side = (if asString side = ''BUY'' then BUY else SELL),
                       a_size = size,
                       a_price = price,
                       feeRateBps = Finite 0\<rparr>
                in andThen (invoke (CreateOrder orderArgs) (createOrder client orderArgs)) (\<lambda>signedOrder.
                     andThen (invoke (PostOrder signedOrder) (postOrder client signedOrder)) (\<lambda>response.
                       resolve (toolResult
                         (OrderData
                           \<lparr>order_id = orStr (orderID response) [],
                            order_status = orStr (resp_status response) ''unknown'',
                            message = errorMsg response,
                            order_details =
                              \<lparr>od_token_id = asString tokenId,
                               od_side = asString side,
                               od_size = Number_toString rt size,
                               od_price = Number_toString rt price,
                               tick_size = tickSize,
                               od_neg_risk = negRisk\<rparr>\<rparr>)
                         False)))))))"

definition cancel_order_execute ::
  "('s, 'r) ClobClientWrapper \<Rightarrow> string \<Rightarrow> Params \<Rightarrow> 's call list \<times> 'r ToolResult" where
  "cancel_order_execute client tid params =
     guarded (andThen (invoke Initialize (initialize client)) (\<lambda>_.
       andThen (invoke EnsureWriteAccess (ensureWriteAccess client)) (\<lambda>_.
         let orderId = p_order_id params
         in if \<not> truthyStr orderId then resolve (errorResult ''order_id is required'')
            else andThen (invoke (CancelOrder (asString orderId)) (cancelOrder client (asString orderId))) (\<lambda>response.
                   resolve (toolResult (CancelData (asString orderId) ''cancelled'' response) False)))))"

text \<open>
  A tool is its name and its \<open>execute\<close> function (description and parameter schema are
  constant texts, left out); \<open>createPolymarketTools\<close> lists the eight tools in the
  order of the source.
\<close>

record ('s, 'r) Tool =
  name :: string
  execute :: "string \<Rightarrow> Params \<Rightarrow> 's call list \<times> 'r ToolResult"

definition createPolymarketTools ::
  "('s, 'r) ClobClientWrapper \<Rightarrow> Network \<Rightarrow> Runtime \<Rightarrow> ('s, 'r) Tool list" where
  "createPolymarketTools client net rt =
     [\<lparr>name = ''polymarket_get_markets'', execute = get_markets_execute client net rt\<rparr>,
      \<lparr>name = ''polymarket_get_market'', execute = get_market_execute client net rt\<rparr>,
      \<lparr>name = ''polymarket_get_orderbook'', execute = get_orderbook_execute client\<rparr>,
      \<lparr>name = ''polymarket_get_balance'', execute = get_balance_execute client\<rparr>,
      \<lparr>name = ''polymarket_get_positions'', execute = get_positions_execute client\<rparr>,
      \<lparr>name = ''polymarket_get_trades'', execute = get_trades_execute client\<rparr>,
      \<lparr>name = ''polymarket_place_order'', execute = place_order_execute client rt\<rparr>,
      \<lparr>name = ''polymarket_cancel_order'', execute = cancel_order_execute client\<rparr>]"

section \<open>Plugin activation\<close>

text \<open>
  The plugin configuration and the process environment, at the properties \<open>activate\<close>
  reads.  \<open>createConfig\<close> and the constructor of the client wrapper belong to the
  client package: they are parameters of \<open>activate\<close> and may throw.  Of the
  configuration they build, the plugin reads the flag \<open>readonly\<close> only.
\<close>

record PluginConfig =
  pc_privateKey :: "string option"
  pc_funder :: "string option"
  pc_apiKey :: "string option"
  pc_apiSecret :: "string option"
  pc_passphrase :: "string option"
  pc_chainId :: "number option"
  pc_readonly :: "bool option"

record Env =
  POLYMARKET_PRIVATE_KEY :: "string option"
  POLYMARKET_FUNDER :: "string option"
  POLYMARKET_API_KEY :: "string option"
  POLYMARKET_API_SECRET :: "string option"
  POLYMARKET_PASSPHRASE :: "string option"
  POLYMARKET_CHAIN_ID :: "string option"
  POLYMARKET_READONLY :: "string option"

record ConfigInput =
  in_privateKey :: string
  in_funder :: "string option"
  in_apiKey :: "string option"
  in_apiSecret :: "string option"
  in_passphrase :: "string option"
  in_chainId :: number
  in_readonly :: bool

record Config =
  readonly :: bool

text \<open>
  The host calls a registered tool with a list of arguments: a string, an object of
  parameters, \<open>null\<close>, or anything else.
\<close>

datatype arg = ArgString string | ArgObject Params | ArgNull | ArgOther

definition emptyParams :: Params where
  "emptyParams =
     \<lparr>p_limit = None, p_offset = None, p_search = None, p_condition_id = None, p_token_id = None,
      p_side = None, p_size = None, p_price = None, p_order_id = None\<rparr>"

text \<open>
  \<open>extractParams\<close>: the second argument when the first is a string and there is a
  second (an argument that is no object has none of the properties, like \<open>{}\<close>), the
  first when it is an object, and \<open>{}\<close> otherwise.
\<close>

fun extractParams :: "arg list \<Rightarrow> Params" where
  "extractParams (ArgString s # ArgObject p # rest) = p"
| "extractParams (ArgString s # a # rest) = emptyParams"
| "extractParams (ArgObject p # rest) = p"
| "extractParams args = emptyParams"

fun toolCallId :: "arg list \<Rightarrow> string" where
  "toolCallId (ArgString s # rest) = s"
| "toolCallId args = ''unknown''"

record ('s, 'r) RegisteredTool =
  reg_name :: string
  reg_execute :: "arg list \<Rightarrow> 's call list \<times> 'r ToolResult"

text \<open>
  The plugin context: its configuration, the tools registered so far (\<open>registerTool\<close>
  appends one and does not fail), and the lines logged, each a level and a message.
\<close>

record ('s, 'r) PluginContext =
  pluginConfig :: "PluginConfig option"
  registry :: "('s, 'r) RegisteredTool list"
  logged :: "(string \<times> string) list"

definition log :: "('s, 'r) PluginContext \<Rightarrow> string \<Rightarrow> string \<Rightarrow> ('s, 'r) PluginContext" where
  "log ctx level msg = ctx\<lparr>logged := logged ctx @ [(level, msg)]\<rparr>"

definition registerTool :: "('s, 'r) PluginContext \<Rightarrow> ('s, 'r) RegisteredTool \<Rightarrow> ('s, 'r) PluginContext" where
  "registerTool ctx t = ctx\<lparr>registry := registry ctx @ [t]\<rparr>"

definition registered :: "('s, 'r) Tool \<Rightarrow> ('s, 'r) RegisteredTool" where
  "registered tool =
     \<lparr>reg_name = name tool,
      reg_execute = (\<lambda>args. execute tool (toolCallId args) (extractParams args))\<rparr>"

text \<open>The registration loop of \<open>activate\<close>, which skips the two write tools in read-only mode.\<close>

fun register_loop :: "Config \<Rightarrow> ('s, 'r) Tool list \<Rightarrow> ('s, 'r) PluginContext \<Rightarrow> ('s, 'r) PluginContext" where
  "register_loop config [] ctx = ctx"
| "register_loop config (tool # rest) ctx =
     (if readonly config \<and> (name tool = ''polymarket_place_order'' \<or> name tool = ''polymarket_cancel_order'')
      then register_loop config rest ctx
      else register_loop config rest (registerTool ctx (registered tool)))"

definition emptyPluginConfig :: PluginConfig where
  "emptyPluginConfig =
     \<lparr>pc_privateKey = None, pc_funder = None, pc_apiKey = None, pc_apiSecret = None,
      pc_passphrase = None, pc_chainId = None, pc_readonly = None\<rparr>"

definition configInput :: "PluginConfig \<Rightarrow> Env \<Rightarrow> string \<Rightarrow> ConfigInput" where
  "configInput pc env privateKey =
     \<lparr>in_privateKey = privateKey,
      in_funder = orStrOpt (pc_funder pc) (POLYMARKET_FUNDER env),
      in_apiKey = orStrOpt (pc_apiKey pc) (POLYMARKET_API_KEY env),
      in_apiSecret = orStrOpt (pc_apiSecret pc) (POLYMARKET_API_SECRET env),
      in_passphrase = orStrOpt (pc_passphrase pc) (POLYMARKET_PASSPHRASE env),
      in_chainId = orNum (pc_chainId pc) (parseInt10 (orStr (POLYMARKET_CHAIN_ID env) ''137'')),
      in_readonly = orBool (pc_readonly pc)
                      (case POLYMARKET_READONLY env of None \<Rightarrow> False | Some s \<Rightarrow> toLowerCase s = ''true'')\<rparr>"

definition activate ::
  "(ConfigInput \<Rightarrow> string + Config) \<Rightarrow> (Config \<Rightarrow> string + ('s, 'r) ClobClientWrapper) \<Rightarrow>
   Network \<Rightarrow> Runtime \<Rightarrow> Env \<Rightarrow> ('s, 'r) PluginContext \<Rightarrow> ('s, 'r) PluginContext" where
  "activate createConfig newClient net rt env ctx =
     (let pc = (case pluginConfig ctx of None \<Rightarrow> emptyPluginConfig | Some c \<Rightarrow> c);
          privateKey = orStrOpt (pc_privateKey pc) (POLYMARKET_PRIVATE_KEY env)
      in if \<not> truthyStr privateKey then
           log ctx ''error'' ''privateKey is required (via plugin config or POLYMARKET_PRIVATE_KEY env var)''
         else
           (case createConfig (configInput pc env (asString privateKey)) of
              Inl e \<Rightarrow> log ctx ''error'' (''Failed to initialize: '' @ e)
            | Inr config \<Rightarrow>
                (case newClient config of
                   Inl e \<Rightarrow> log ctx ''error'' (''Failed to initialize: '' @ e)
                 | Inr client \<Rightarrow> register_loop config (createPolymarketTools client net rt) ctx)))"

section \<open>Notions used to state the properties\<close>

text \<open>
  The verdict of the four checks of \<open>polymarket_place_order\<close>, in their order: the
  message of the first check that fails, \<open>None\<close> when all pass.
\<close>

definition validationError :: "Params \<Rightarrow> string option" where
  "validationError params =
     (if \<not> truthyStr (p_token_id params) then Some ''token_id is required''
      else if \<not> truthyStr (p_side params) then Some ''side is required (BUY or SELL)''
      else if isNaN (parseFloat (asString (p_size params))) \<or>
              numLess (parseFloat (asString (p_size params))) (Finite 5)
        then Some ''size must be at least 5''
      else if isNaN (parseFloat (asString (p_price params))) \<or>
              numLessEq (parseFloat (asString (p_price params))) (Finite 0) \<or>
              numGreaterEq (parseFloat (asString (p_price params))) (Finite 1)
        then Some ''price must be between 0 and 1 (exclusive)''
      else None)"

text \<open>
  A write tool rejected its parameters with \<open>msg\<close>: it called \<open>initialize\<close> and
  \<open>ensureWriteAccess\<close>, nothing else, and returned the error envelope of \<open>msg\<close>.
\<close>

definition rejected :: "string \<Rightarrow> 's call list \<times> 'r ToolResult \<Rightarrow> bool" where
  "rejected msg out = (out = ([Initialize, EnsureWriteAccess], errorResult msg))"

text \<open>Order placement went past its checks: its third call is the market-metadata fetch.\<close>

definition accepted :: "Params \<Rightarrow> 's call list \<times> 'r ToolResult \<Rightarrow> bool" where
  "accepted params out =
     (take 3 (fst out) = [Initialize, EnsureWriteAccess, GetMarket (asString (p_token_id params))])"

text \<open>The calls that sign, submit or cancel an order, or fetch for one.\<close>

fun tradingCall :: "'s call \<Rightarrow> bool" where
  "tradingCall (GetMarket t) = True"
| "tradingCall (CreateOrder a) = True"
| "tradingCall (PostOrder s) = True"
| "tradingCall (CancelOrder i) = True"
| "tradingCall c = False"

text \<open>
  A call failed upstream: it threw, or (for a fetch) the response was not a 2xx or its
  body could not be read.
\<close>

definition failedResponse :: "string + 'b Response \<Rightarrow> bool" where
  "failedResponse out = (case out of Inl e \<Rightarrow> True | Inr response \<Rightarrow> \<not> ok response \<or> isl (json response))"

fun upstreamFailure :: "('s, 'r) ClobClientWrapper \<Rightarrow> Network \<Rightarrow> 's call \<Rightarrow> bool" where
  "upstreamFailure client net Initialize = isl (initialize client)"
| "upstreamFailure client net EnsureWriteAccess = isl (ensureWriteAccess client)"
| "upstreamFailure client net (Fetch (MarketsRequest b l f s)) = failedResponse (fetch_list net (MarketsRequest b l f s))"
| "upstreamFailure client net (Fetch (MarketRequest b c)) = failedResponse (fetch_one net (MarketRequest b c))"
| "upstreamFailure client net (GetOrderBook t) = isl (getOrderBook client t)"
| "upstreamFailure client net GetBalanceAllowance = isl (getBalanceAllowance client)"
| "upstreamFailure client net GetOpenOrders = isl (getOpenOrders client)"
| "upstreamFailure client net GetTrades = isl (getTrades client)"
| "upstreamFailure client net (GetMarket t) = isl (getMarket client t)"
| "upstreamFailure client net (CreateOrder a) = isl (createOrder client a)"
| "upstreamFailure client net (PostOrder s) = isl (postOrder client s)"
| "upstreamFailure client net (CancelOrder i) = isl (cancelOrder client i)"

fun isGetMarket :: "'s call \<Rightarrow> bool" where
  "isGetMarket (GetMarket t) = True"
| "isGetMarket c = False"

text \<open>
  The outcomes property yields no list: it is neither an array nor a string that parses.
\<close>

definition noList :: "Runtime \<Rightarrow> field \<Rightarrow> bool" where
  "noList rt v = (case v of Str s \<Rightarrow> JSON_parse rt s = None | Arr xs \<Rightarrow> False | _ \<Rightarrow> True)"

text \<open>The token built for index \<open>i\<close> of the decoded lists.\<close>

definition tokenAt :: "string list \<Rightarrow> string list \<Rightarrow> string list \<Rightarrow> nat \<Rightarrow> Token" where
  "tokenAt outs prices tokenIds i =
     \<lparr>token_id = JStr (if i < length tokenIds \<and> tokenIds ! i \<noteq> [] then tokenIds ! i else []),
      outcome = Some (JStr (outs ! i)),
      price = (if i < length prices \<and> prices ! i \<noteq> [] then parseFloat (prices ! i) else Finite 0)\<rparr>"

text \<open>The position summary built from one open order.\<close>

definition positionOf :: "RawOpenOrder \<Rightarrow> Position" where
  "positionOf ord =
     \<lparr>pos_token_id = oo_asset_id ord,
      pos_market = orStr (oo_market ord) ''Unknown'',
      pos_outcome = orStr (oo_outcome ord) ''Unknown'',
      pos_size = oo_original_size ord,
      pos_avg_price = oo_price ord\<rparr>"

section \<open>Sample collaborators and inputs\<close>

definition sampleRuntime :: Runtime where
  \<open>sampleRuntime =
     \<lparr>JSON_parse = (\<lambda>s. if s = ''["Yes","No"]'' then Some (JArr [JStr ''Yes'', JStr ''No''])
                          else if s = ''["0.5","0.25"]'' then Some (JArr [JStr ''0.5'', JStr ''0.25''])
                          else if s = ''["11","22"]'' then Some (JArr [JStr ''11'', JStr ''22''])
                          else if s = ''null'' then Some JNull
                          else None),
      Number_toString = (\<lambda>n. if n = Finite 10 then ''10'' else if n = Finite (1 / 2) then ''0.5''
                               else if n = PosInf then ''Infinity'' else ''NaN''),
      errorMessage = (\<lambda>e. case e of
                             NullRead k \<Rightarrow> ''Cannot read properties of null (reading '' @ k @ '')''
                           | NotPrimitive \<Rightarrow> ''Cannot convert object to primitive value''
                           | InvalidArrayLength \<Rightarrow> ''Invalid array length'')\<rparr>\<close>

definition sampleResponse :: RawOrderResponse where
  "sampleResponse = \<lparr>orderID = Some ''0xabc'', resp_status = Some ''live'', errorMsg = None\<rparr>"

text \<open>A client whose calls succeed, except that market metadata is unavailable.\<close>

definition sampleClient :: "(string, string) ClobClientWrapper" where
  "sampleClient =
     \<lparr>initialize = Inr (),
      ensureWriteAccess = Inr (),
      getGammaApiUrl = ''https://gamma'',
      getFunder = ''0xfunder'',
      getOrderBook = (\<lambda>t. Inr \<lparr>bids = None, asks = None\<rparr>),
      getBalanceAllowance = Inr \<lparr>balance = None, allowance = None\<rparr>,
      getOpenOrders = Inr (Some []),
      getTrades = Inr (Some []),
      getMarket = (\<lambda>t. Inl ''market info unavailable''),
      createOrder = (\<lambda>a. Inr ''signed''),
      postOrder = (\<lambda>s. Inr sampleResponse),
      cancelOrder = (\<lambda>i. Inr ''done'')\<rparr>"

text \<open>The same client when its initialisation throws.\<close>

definition failingClient :: "(string, string) ClobClientWrapper" where
  "failingClient = sampleClient\<lparr>initialize := Inl ''credentials rejected''\<rparr>"

definition orderParams :: "string \<Rightarrow> string \<Rightarrow> string \<Rightarrow> string \<Rightarrow> Params" where
  "orderParams t sd sz pr =
     emptyParams\<lparr>p_token_id := Some t, p_side := Some sd, p_size := Some sz, p_price := Some pr\<rparr>"

definition sampleMarket :: GammaMarket where
  "sampleMarket =
     \<lparr>conditionId = ''0xc1'', question = ''Will it rain?'', slug = ''rain'', volume = ''1000'',
      endDate = ''2026-01-01'', active = True, closed = False,
      clobTokenIds = Arr [''11'', ''22''], outcomes = Arr [''Yes'', ''No''],
      outcomePrices = Arr [''0.5'', ''0.25'']\<rparr>"

text \<open>A transport that answers every request with one status and the given bodies.\<close>

definition sampleNetwork :: "nat \<Rightarrow> string \<Rightarrow> GammaMarket list \<Rightarrow> Network" where
  "sampleNetwork st txt page =
     \<lparr>fetch_list = (\<lambda>req. Inr \<lparr>status = st, statusText = txt, json = Inr (Some page)\<rparr>),
      fetch_one = (\<lambda>req. Inr \<lparr>status = st, statusText = txt, json = Inr (case page of [] \<Rightarrow> None | m # ms \<Rightarrow> Some m)\<rparr>)\<rparr>"

definition sampleOrder :: "string \<Rightarrow> string \<Rightarrow> string \<Rightarrow> string \<Rightarrow> RawOpenOrder" where
  "sampleOrder i t pr sz =
     \<lparr>oo_id = i, oo_asset_id = t, oo_side = ''BUY'', oo_price = pr, oo_original_size = sz,
      oo_size_matched = ''0'', oo_outcome = Some ''Yes'', oo_market = None\<rparr>"

definition samplePluginConfig :: PluginConfig where
  "samplePluginConfig = emptyPluginConfig\<lparr>pc_privateKey := Some ''0xkey'', pc_readonly := Some True\<rparr>"

definition sampleContext :: "(string, string) PluginContext" where
  "sampleContext = \<lparr>pluginConfig = Some samplePluginConfig, registry = [], logged = []\<rparr>"

definition sampleEnv :: Env where
  "sampleEnv =
     \<lparr>POLYMARKET_PRIVATE_KEY = None, POLYMARKET_FUNDER = None, POLYMARKET_API_KEY = None,
      POLYMARKET_API_SECRET = None, POLYMARKET_PASSPHRASE = None, POLYMARKET_CHAIN_ID = None,
      POLYMARKET_READONLY = None\<rparr>"

definition sampleCreateConfig :: "ConfigInput \<Rightarrow> string + Config" where
  "sampleCreateConfig i = Inr \<lparr>readonly = in_readonly i\<rparr>"

definition sampleNewClient :: "Config \<Rightarrow> string + (string, string) ClobClientWrapper" where
  "sampleNewClient c = Inr sampleClient"

text \<open>Markets whose three lists differ in length, and one without any of them.\<close>

definition unevenMarket :: GammaMarket where
  "unevenMarket = sampleMarket\<lparr>outcomePrices := Arr [''0.5''], clobTokenIds := Arr []\<rparr>"

definition shortOutcomesMarket :: GammaMarket where
  "shortOutcomesMarket = sampleMarket\<lparr>outcomes := Arr [''Yes'']\<rparr>"

definition bareMarket :: GammaMarket where
  "bareMarket = sampleMarket\<lparr>outcomes := Undefined, outcomePrices := Null, clobTokenIds := Str ''not json''\<rparr>"

text \<open>A market without outcomes whose prices are the text \<open>null\<close>.\<close>

definition nullPricesMarket :: GammaMarket where
  "nullPricesMarket = sampleMarket\<lparr>outcomes := Undefined, outcomePrices := Str ''null''\<rparr>"

text \<open>A market that is open and carries an empty array of token ids.\<close>

definition emptyIdsMarket :: GammaMarket where
  "emptyIdsMarket = sampleMarket\<lparr>clobTokenIds := Arr []\<rparr>"

text \<open>A client with two open orders on one token, and one with none.\<close>

definition twoOrdersClient :: "(string, string) ClobClientWrapper" where
  "twoOrdersClient =
     sampleClient\<lparr>getOpenOrders :=
       Inr (Some [sampleOrder ''o1'' ''tok'' ''0.4'' ''10'', sampleOrder ''o2'' ''tok'' ''0.6'' ''20''])\<rparr>"

definition marketParams :: "string \<Rightarrow> Params" where
  "marketParams cid = emptyParams\<lparr>p_condition_id := Some cid\<rparr>"

section \<open>Properties of market normalisation\<close>

lemma indexBelowLength_array: "indexBelowLength rt i (JArr xs) = Inr (i < length xs)"
  by (simp add: indexBelowLength_def readLength_def toNumber_def)

text \<open>On arrays of strings no step of a round throws, and the token is \<open>tokenAt\<close>.\<close>

lemma buildToken_strings:
  assumes "i < length outs"
  shows "buildToken rt (JArr (map JStr outs)) (JArr (map JStr prices)) (JArr (map JStr ids)) i =
         Inr (tokenAt outs prices ids i)"
  using assms
  by (simp add: buildToken_def readIndex_def elemAt_def priceOf_def truthyJson_def tokenAt_def)

text \<open>The loop pushes the token of each remaining index, in order.\<close>

lemma formatMarket_loop_map:
  "formatMarket_loop rt i (JArr (map JStr outs)) (JArr (map JStr prices)) (JArr (map JStr ids)) toks =
     Inr (toks @ map (tokenAt outs prices ids) [i..<length outs])"
proof (induction "length outs - i" arbitrary: i toks)
  case 0
  then have "\<not> i < length outs"
    by simp
  then show ?case
    by (subst formatMarket_loop.simps) (simp add: indexBelowLength_array)
next
  case (Suc n)
  then have below: "i < length outs" and rest: "n = length outs - (i + 1)"
    by simp_all
  have "formatMarket_loop rt i (JArr (map JStr outs)) (JArr (map JStr prices)) (JArr (map JStr ids)) toks =
        formatMarket_loop rt (i + 1) (JArr (map JStr outs)) (JArr (map JStr prices)) (JArr (map JStr ids))
          (toks @ [tokenAt outs prices ids i])"
    using below
    by (subst formatMarket_loop.simps) (simp add: indexBelowLength_array buildToken_strings isArray_def)
  also have "\<dots> = Inr ((toks @ [tokenAt outs prices ids i]) @ map (tokenAt outs prices ids) [i + 1..<length outs])"
    using Suc.hyps(1) [OF rest] .
  also have "\<dots> = Inr (toks @ map (tokenAt outs prices ids) [i..<length outs])"
    using below by (simp add: upt_conv_Cons)
  finally show ?case .
qed

lemma formatMarket_strings:
  assumes "parseJsonField rt (outcomes m) [''Yes'', ''No''] = JArr (map JStr outs)"
    and "parseJsonField rt (outcomePrices m) [] = JArr (map JStr prices)"
    and "parseJsonField rt (clobTokenIds m) [] = JArr (map JStr ids)"
  shows "formatMarket rt m =
         Inr \<lparr>condition_id = conditionId m,
              m_question = question m,
              tokens = map (tokenAt outs prices ids) [0..<length outs],
              m_volume = orStr (Some (volume m)) ''0'',
              end_date = orStr (Some (endDate m)) [],
              m_active = active m,
              m_closed = closed m\<rparr>"
  using assms by (simp add: formatMarket_def Let_def formatMarket_loop_map)

lemma parseJsonField_array: "parseJsonField rt (Arr xs) fallback = JArr (map JStr xs)"
  by (simp add: parseJsonField_def)

lemma parseJsonField_noList: "noList rt v \<Longrightarrow> parseJsonField rt v fallback = JArr (map JStr fallback)"
  by (cases v) (simp_all add: noList_def parseJsonField_def)

lemma decimal_0: "decimal 0 = ''0''"
  by code_simp

lemma upt_0_2: "[0..<2] = [0, Suc 0]"
  by (simp add: upt_rec numeral_2_eq_2)

lemma parseFloat_half: "parseFloat ''0.5'' = Finite (1 / 2)"
  by code_simp

lemma parseFloat_quarter: "parseFloat ''0.25'' = Finite (1 / 4)"
  by code_simp

text \<open>
  C6, as the code has it.  When the three properties are arrays, \<open>formatMarket\<close> returns
  a market (it does not throw) with one token for each outcome, in order, whatever the
  lengths of the other two lists: a price that is missing (or empty) becomes 0, a token
  id that is missing (or empty) becomes the empty string, and no outcome is dropped.
  The number of tokens is the number of outcomes, so prices and token ids beyond it are
  not part of the result.
\<close>

theorem formatMarket_one_token_per_outcome:
  assumes "outcomes m = Arr outs" and "outcomePrices m = Arr prices" and "clobTokenIds m = Arr ids"
  shows "\<exists>mk. formatMarket rt m = Inr mk \<and>
           length (tokens mk) = length outs \<and>
           (\<forall>i < length outs. tokens mk ! i = tokenAt outs prices ids i)"
  using assms by (simp add: formatMarket_strings parseJsonField_array)

theorem formatMarket_one_token_per_outcome_witness:
  "outcomes unevenMarket = Arr [''Yes'', ''No''] \<and> outcomePrices unevenMarket = Arr [''0.5''] \<and>
   clobTokenIds unevenMarket = Arr [] \<and>
   (\<exists>mk. formatMarket sampleRuntime unevenMarket = Inr mk \<and>
      length (tokens mk) = 2 \<and>
      tokens mk ! 0 = \<lparr>token_id = JStr [], outcome = Some (JStr ''Yes''), price = Finite (1 / 2)\<rparr> \<and>
      tokens mk ! 1 = \<lparr>token_id = JStr [], outcome = Some (JStr ''No''), price = Finite 0\<rparr>)"
proof -
  have h1: "outcomes unevenMarket = Arr [''Yes'', ''No'']"
    and h2: "outcomePrices unevenMarket = Arr [''0.5'']"
    and h3: "clobTokenIds unevenMarket = Arr []"
    by (simp_all add: unevenMarket_def sampleMarket_def)
  from formatMarket_one_token_per_outcome [OF h1 h2 h3, of sampleRuntime]
  obtain mk where ok: "formatMarket sampleRuntime unevenMarket = Inr mk"
    and len: "length (tokens mk) = 2"
    and each: "\<forall>i < 2. tokens mk ! i = tokenAt [''Yes'', ''No''] [''0.5''] [] i"
    by auto
  from each have t0: "tokens mk ! 0 = tokenAt [''Yes'', ''No''] [''0.5''] [] 0"
    by simp
  from each have t1: "tokens mk ! 1 = tokenAt [''Yes'', ''No''] [''0.5''] [] 1"
    by simp
  have "tokens mk ! 0 = \<lparr>token_id = JStr [], outcome = Some (JStr ''Yes''), price = Finite (1 / 2)\<rparr>"
    using t0 by (simp add: tokenAt_def parseFloat_half)
  moreover have "tokens mk ! 1 = \<lparr>token_id = JStr [], outcome = Some (JStr ''No''), price = Finite 0\<rparr>"
    using t1 by (simp add: tokenAt_def)
  ultimately show ?thesis
    using h1 h2 h3 ok len by simp
qed

text \<open>
  The claim as stated fails: with one outcome, two prices and two token ids, the second
  price and the second token id are in the lists and not in the result.
\<close>

theorem formatMarket_truncates_counterexample:
  "outcomes shortOutcomesMarket = Arr [''Yes''] \<and>
   outcomePrices shortOutcomesMarket = Arr [''0.5'', ''0.25''] \<and>
   clobTokenIds shortOutcomesMarket = Arr [''11'', ''22''] \<and>
   formatMarket sampleRuntime shortOutcomesMarket =
     Inr \<lparr>condition_id = ''0xc1'', m_question = ''Will it rain?'',
          tokens = [\<lparr>token_id = JStr ''11'', outcome = Some (JStr ''Yes''), price = Finite (1 / 2)\<rparr>],
          m_volume = ''1000'', end_date = ''2026-01-01'', m_active = True, m_closed = False\<rparr>"
proof -
  have h1: "outcomes shortOutcomesMarket = Arr [''Yes'']"
    and h2: "outcomePrices shortOutcomesMarket = Arr [''0.5'', ''0.25'']"
    and h3: "clobTokenIds shortOutcomesMarket = Arr [''11'', ''22'']"
    by (simp_all add: shortOutcomesMarket_def sampleMarket_def)
  have "formatMarket sampleRuntime shortOutcomesMarket =
        Inr \<lparr>condition_id = conditionId shortOutcomesMarket,
             m_question = question shortOutcomesMarket,
             tokens = map (tokenAt [''Yes''] [''0.5'', ''0.25''] [''11'', ''22'']) [0..<length [''Yes'']],
             m_volume = orStr (Some (volume shortOutcomesMarket)) ''0'',
             end_date = orStr (Some (endDate shortOutcomesMarket)) [],
             m_active = active shortOutcomesMarket,
             m_closed = closed shortOutcomesMarket\<rparr>"
    by (rule formatMarket_strings) (simp_all add: h1 h2 h3 parseJsonField_array)
  then show ?thesis
    using h1 h2 h3
    by (simp add: shortOutcomesMarket_def sampleMarket_def tokenAt_def parseFloat_half orStr_def truthyStr_def)
qed



text \<open>
  When the outcomes property is absent, is neither a string nor an array, or is a string
  that \<open>JSON.parse\<close> rejects, and prices and token ids come out as arrays of strings,
  the tokens are labelled \<open>Yes\<close> and \<open>No\<close>, and there are exactly these two; when
  prices and token ids yield no list either, both tokens have price 0 and an empty token
  id.
\<close>

lemma formatMarket_fallback_labels:
  assumes "noList rt (outcomes m)"
    and "parseJsonField rt (outcomePrices m) [] = JArr (map JStr prices)"
    and "parseJsonField rt (clobTokenIds m) [] = JArr (map JStr ids)"
  shows "\<exists>mk. formatMarket rt m = Inr mk \<and>
           map outcome (tokens mk) = [Some (JStr ''Yes''), Some (JStr ''No'')] \<and>
           (prices = [] \<and> ids = [] \<longrightarrow>
              tokens mk = [\<lparr>token_id = JStr [], outcome = Some (JStr ''Yes''), price = Finite 0\<rparr>,
                           \<lparr>token_id = JStr [], outcome = Some (JStr ''No''), price = Finite 0\<rparr>])"
proof -
  have "parseJsonField rt (outcomes m) [''Yes'', ''No''] = JArr (map JStr [''Yes'', ''No''])"
    using assms(1) by (rule parseJsonField_noList)
  from formatMarket_strings [OF this assms(2) assms(3)] show ?thesis
    by (simp add: upt_0_2 tokenAt_def)
qed

lemma formatMarket_bare:
  "formatMarket sampleRuntime bareMarket =
     Inr \<lparr>condition_id = ''0xc1'', m_question = ''Will it rain?'',
          tokens = [\<lparr>token_id = JStr [], outcome = Some (JStr ''Yes''), price = Finite 0\<rparr>,
                    \<lparr>token_id = JStr [], outcome = Some (JStr ''No''), price = Finite 0\<rparr>],
          m_volume = ''1000'', end_date = ''2026-01-01'', m_active = True, m_closed = False\<rparr>"
proof -
  have "formatMarket sampleRuntime bareMarket =
        Inr \<lparr>condition_id = conditionId bareMarket,
             m_question = question bareMarket,
             tokens = map (tokenAt [''Yes'', ''No''] [] []) [0..<length [''Yes'', ''No'']],
             m_volume = orStr (Some (volume bareMarket)) ''0'',
             end_date = orStr (Some (endDate bareMarket)) [],
             m_active = active bareMarket,
             m_closed = closed bareMarket\<rparr>"
    by (rule formatMarket_strings)
      (simp_all add: parseJsonField_def bareMarket_def sampleMarket_def sampleRuntime_def)
  then show ?thesis
    by (simp add: bareMarket_def sampleMarket_def tokenAt_def upt_0_2 orStr_def truthyStr_def)
qed

text \<open>
  C10.  The code does not do what the claim says for every market without usable
  outcomes.  A market whose outcomes property is absent and whose prices are the text
  \<open>null\<close> has its outcomes replaced by \<open>Yes\<close> and \<open>No\<close>, as the claim says; but
  \<open>parseJsonField\<close> returns the \<open>null\<close> that the text of the prices parses to, where
  for a value that is not an array it returns the fallback, and the first round of the
  loop throws on \<open>prices[0]\<close>.  The market has no tokens at all: \<open>formatMarket\<close>
  throws the TypeError, and the tool that looks the market up answers with the error
  envelope of that message.
\<close>

theorem formatMarket_throws_on_null_prices:
  "outcomes nullPricesMarket = Undefined \<and>
   parseJsonField sampleRuntime (outcomes nullPricesMarket) [''Yes'', ''No''] = JArr [JStr ''Yes'', JStr ''No''] \<and>
   parseJsonField sampleRuntime (outcomePrices nullPricesMarket) [] = JNull \<and>
   parseJsonField sampleRuntime Null [] = JArr [] \<and>
   formatMarket sampleRuntime nullPricesMarket = Inl ''Cannot read properties of null (reading 0)'' \<and>
   snd (get_market_execute sampleClient (sampleNetwork 200 ''OK'' [nullPricesMarket]) sampleRuntime ''call-1'' (marketParams ''0xc1'')) =
     (errorResult ''Cannot read properties of null (reading 0)'' :: string ToolResult)"
proof -
  have absent: "outcomes nullPricesMarket = Undefined"
    by (simp add: nullPricesMarket_def)
  have outs: "parseJsonField sampleRuntime (outcomes nullPricesMarket) [''Yes'', ''No''] = JArr [JStr ''Yes'', JStr ''No'']"
    by (simp add: parseJsonField_def nullPricesMarket_def)
  have prices: "parseJsonField sampleRuntime (outcomePrices nullPricesMarket) [] = JNull"
    by (simp add: parseJsonField_def nullPricesMarket_def sampleRuntime_def)
  have native: "parseJsonField sampleRuntime Null [] = JArr []"
    by (simp add: parseJsonField_def)
  have message: "errorMessage sampleRuntime (NullRead (decimal 0)) = ''Cannot read properties of null (reading 0)''"
    by (simp add: sampleRuntime_def decimal_0)
  have thrown: "formatMarket sampleRuntime nullPricesMarket = Inl ''Cannot read properties of null (reading 0)''"
    unfolding formatMarket_def Let_def outs prices
    by (subst formatMarket_loop.simps)
      (simp add: indexBelowLength_array buildToken_def readIndex_def elemAt_def message
        parseJsonField_def nullPricesMarket_def sampleMarket_def)
  have tool: "snd (get_market_execute sampleClient (sampleNetwork 200 ''OK'' [nullPricesMarket]) sampleRuntime ''call-1'' (marketParams ''0xc1'')) =
              (errorResult ''Cannot read properties of null (reading 0)'' :: string ToolResult)"
    by (simp add: get_market_execute_def fetchGammaMarket_def andThen_def invoke_def resolve_def
        throw_def settle_def guarded_def sampleClient_def sampleNetwork_def marketParams_def
        emptyParams_def truthyStr_def asString_def ok_def thrown)
  show ?thesis
    using absent outs prices native thrown tool by simp
qed

section \<open>Properties of the read tools\<close>

lemmas io_defs = andThen_def invoke_def resolve_def throw_def settle_def guarded_def

lemma isError_errorResult: "isError (errorResult e)"
  by (simp add: errorResult_def toolResult_def)

subsection \<open>Positions\<close>

lemma get_positions_run:
  assumes "initialize client = Inr ()" and "getOpenOrders client = Inr (Some orders)"
  shows "get_positions_execute client tid params =
           ([Initialize, GetOpenOrders],
            toolResult (PositionsData (map snd (positionMap_loop orders [])) (map formatOrder orders)) False)"
  using assms by (cases orders) (simp_all add: get_positions_execute_def io_defs orList_def)

lemma positionMap_loop_step:
  "positionMap_loop (ord # rest) pm =
     positionMap_loop rest
       (if map_of pm (oo_asset_id ord) = None then pm @ [(oo_asset_id ord, positionOf ord)] else pm)"
  by (simp add: positionOf_def Let_def)

text \<open>
  First seen wins, for any list of orders: the map has one entry for each token, and
  the entry of a token is the summary of the first order on it.
\<close>

lemma positionMap_loop_distinct:
  "distinct (map fst pm) \<Longrightarrow> distinct (map fst (positionMap_loop orders pm))"
proof (induction orders arbitrary: pm)
  case Nil
  then show ?case by simp
next
  case (Cons ord rest)
  have "distinct (map fst (if map_of pm (oo_asset_id ord) = None
                           then pm @ [(oo_asset_id ord, positionOf ord)] else pm))"
    using Cons.prems by (auto simp: map_of_eq_None_iff)
  from Cons.IH [OF this] show ?case
    by (simp only: positionMap_loop_step)
qed

lemma positionMap_loop_lookup:
  "map_of (positionMap_loop orders pm) t =
     (case map_of pm t of
        Some p \<Rightarrow> Some p
      | None \<Rightarrow> map_option positionOf (find (\<lambda>ord. oo_asset_id ord = t) orders))"
proof (induction orders arbitrary: pm)
  case Nil
  then show ?case by (simp split: option.split)
next
  case (Cons ord rest)
  show ?case
    unfolding positionMap_loop_step Cons.IH
    by (auto simp: map_of_append split: option.split)
qed

lemma positions_first_seen:
  "distinct (map fst (positionMap_loop orders [])) \<and>
   map_of (positionMap_loop orders []) t = map_option positionOf (find (\<lambda>ord. oo_asset_id ord = t) orders)"
  by (simp add: positionMap_loop_distinct positionMap_loop_lookup)

text \<open>
  C7.  With the client initialised: on an empty list of open orders the tool returns
  empty positions and empty open orders; on two open orders for one token it returns
  one position, built from the first order, and both orders in \<open>open_orders\<close>.
\<close>

theorem get_positions_first_order_wins:
  assumes "initialize client = Inr ()"
  shows "(getOpenOrders client = Inr (Some []) \<longrightarrow>
            get_positions_execute client tid params =
              ([Initialize, GetOpenOrders], toolResult (PositionsData [] []) False)) \<and>
         (getOpenOrders client = Inr (Some [earlier, later]) \<and> oo_asset_id earlier = oo_asset_id later \<longrightarrow>
            get_positions_execute client tid params =
              ([Initialize, GetOpenOrders],
               toolResult (PositionsData [positionOf earlier] [formatOrder earlier, formatOrder later]) False))"
  using assms by (auto simp add: get_positions_run positionOf_def Let_def)

theorem get_positions_first_order_wins_witness:
  "initialize sampleClient = Inr () \<and> getOpenOrders sampleClient = Inr (Some []) \<and>
   get_positions_execute sampleClient ''call-1'' emptyParams =
     ([Initialize, GetOpenOrders], toolResult (PositionsData [] []) False) \<and>
   initialize twoOrdersClient = Inr () \<and>
   getOpenOrders twoOrdersClient =
     Inr (Some [sampleOrder ''o1'' ''tok'' ''0.4'' ''10'', sampleOrder ''o2'' ''tok'' ''0.6'' ''20'']) \<and>
   get_positions_execute twoOrdersClient ''call-1'' emptyParams =
     ([Initialize, GetOpenOrders],
      toolResult
        (PositionsData
          [\<lparr>pos_token_id = ''tok'', pos_market = ''Unknown'', pos_outcome = ''Yes'',
            pos_size = ''10'', pos_avg_price = ''0.4''\<rparr>]
          [\<lparr>fo_id = ''o1'', fo_token_id = ''tok'', fo_side = ''BUY'', fo_price = ''0.4'',
            fo_size = ''10'', fo_filled = ''0''\<rparr>,
           \<lparr>fo_id = ''o2'', fo_token_id = ''tok'', fo_side = ''BUY'', fo_price = ''0.6'',
            fo_size = ''20'', fo_filled = ''0''\<rparr>])
        False)"
proof -
  have i1: "initialize sampleClient = Inr ()" and g1: "getOpenOrders sampleClient = Inr (Some [])"
    by (simp_all add: sampleClient_def)
  have i2: "initialize twoOrdersClient = Inr ()"
    and g2: "getOpenOrders twoOrdersClient =
               Inr (Some [sampleOrder ''o1'' ''tok'' ''0.4'' ''10'', sampleOrder ''o2'' ''tok'' ''0.6'' ''20''])"
    by (simp_all add: twoOrdersClient_def sampleClient_def)
  have same: "oo_asset_id (sampleOrder ''o1'' ''tok'' ''0.4'' ''10'') = oo_asset_id (sampleOrder ''o2'' ''tok'' ''0.6'' ''20'')"
    by (simp add: sampleOrder_def)
  from get_positions_first_order_wins [OF i1, where tid = "''call-1''" and params = emptyParams] g1
  have r1: "get_positions_execute sampleClient ''call-1'' emptyParams =
              ([Initialize, GetOpenOrders], toolResult (PositionsData [] []) False)"
    by simp
  from get_positions_first_order_wins [OF i2, where earlier = "sampleOrder ''o1'' ''tok'' ''0.4'' ''10''"
      and later = "sampleOrder ''o2'' ''tok'' ''0.6'' ''20''" and tid = "''call-1''" and params = emptyParams]
    g2 same
  have r2: "get_positions_execute twoOrdersClient ''call-1'' emptyParams =
              ([Initialize, GetOpenOrders],
               toolResult
                 (PositionsData [positionOf (sampleOrder ''o1'' ''tok'' ''0.4'' ''10'')]
                   [formatOrder (sampleOrder ''o1'' ''tok'' ''0.4'' ''10''),
                    formatOrder (sampleOrder ''o2'' ''tok'' ''0.6'' ''20'')])
                 False)"
    by simp
  show ?thesis
    using i1 g1 r1 i2 g2 r2
    by (simp add: positionOf_def formatOrder_def sampleOrder_def orStr_def)
qed

subsection \<open>A single market\<close>

text \<open>
  C4, as the code has it.  For a non-empty condition id and an initialised client, a 404
  of the single-market fetch makes \<open>fetchGammaMarket\<close> return \<open>null\<close> without throwing,
  and the tool answers with the error envelope of \<open>Market not found\<close>; any other
  response that is not a 2xx makes it answer with the error envelope of
  \<open>Failed to fetch market\<close>.  Both are error envelopes; their messages differ.
\<close>

theorem get_market_not_found:
  assumes "initialize (client :: ('s, 'r) ClobClientWrapper) = Inr ()" and "p_condition_id params = Some cid" and "cid \<noteq> []"
    and "fetch_one net (MarketRequest (getGammaApiUrl client) cid) = Inr response"
  shows "(status response = 404 \<longrightarrow>
            fetchGammaMarket client net cid = ([Fetch (MarketRequest (getGammaApiUrl client) cid)], Inr None) \<and>
            get_market_execute client net rt tid params =
              ([Initialize, Fetch (MarketRequest (getGammaApiUrl client) cid)],
               errorResult (''Market not found: '' @ cid))) \<and>
         (\<not> ok response \<and> status response \<noteq> 404 \<longrightarrow>
            get_market_execute client net rt tid params =
              ([Initialize, Fetch (MarketRequest (getGammaApiUrl client) cid)],
               errorResult (''Failed to fetch market: '' @ statusText response))) \<and>
         (errorResult (''Market not found: '' @ cid) :: 'r ToolResult) \<noteq>
            errorResult (''Failed to fetch market: '' @ statusText response) \<and>
         isError (errorResult (''Market not found: '' @ cid) :: 'r ToolResult)"
  using assms
  by (simp add: get_market_execute_def fetchGammaMarket_def io_defs truthyStr_def asString_def ok_def
      errorResult_def toolResult_def Let_def)

theorem get_market_not_found_witness:
  "initialize sampleClient = Inr () \<and> p_condition_id (marketParams ''0xdead'') = Some ''0xdead'' \<and>
   fetch_one (sampleNetwork 404 ''Not Found'' []) (MarketRequest (getGammaApiUrl sampleClient) ''0xdead'') =
     Inr \<lparr>status = 404, statusText = ''Not Found'', json = Inr None\<rparr> \<and>
   get_market_execute sampleClient (sampleNetwork 404 ''Not Found'' []) sampleRuntime ''call-1''
       (marketParams ''0xdead'') =
     ([Initialize, Fetch (MarketRequest ''https://gamma'' ''0xdead'')],
      (errorResult ''Market not found: 0xdead'' :: string ToolResult)) \<and>
   get_market_execute sampleClient (sampleNetwork 500 ''Internal Server Error'' []) sampleRuntime ''call-1''
       (marketParams ''0xdead'') =
     ([Initialize, Fetch (MarketRequest ''https://gamma'' ''0xdead'')],
      (errorResult ''Failed to fetch market: Internal Server Error'' :: string ToolResult))"
proof -
  have i: "initialize sampleClient = Inr ()"
    by (simp add: sampleClient_def)
  have p: "p_condition_id (marketParams ''0xdead'') = Some ''0xdead''"
    by (simp add: marketParams_def emptyParams_def)
  have n: "''0xdead'' \<noteq> []"
    by simp
  have f404: "fetch_one (sampleNetwork 404 ''Not Found'' []) (MarketRequest (getGammaApiUrl sampleClient) ''0xdead'') =
                Inr \<lparr>status = 404, statusText = ''Not Found'', json = Inr None\<rparr>"
    by (simp add: sampleNetwork_def)
  have f500: "fetch_one (sampleNetwork 500 ''Internal Server Error'' [])
                (MarketRequest (getGammaApiUrl sampleClient) ''0xdead'') =
                Inr \<lparr>status = 500, statusText = ''Internal Server Error'', json = Inr None\<rparr>"
    by (simp add: sampleNetwork_def)
  have url: "getGammaApiUrl sampleClient = ''https://gamma''"
    by (simp add: sampleClient_def)
  from get_market_not_found [OF i p n f404, where rt = sampleRuntime and tid = "''call-1''"]
  have r404: "get_market_execute sampleClient (sampleNetwork 404 ''Not Found'' []) sampleRuntime ''call-1''
                (marketParams ''0xdead'') =
              ([Initialize, Fetch (MarketRequest ''https://gamma'' ''0xdead'')],
               (errorResult ''Market not found: 0xdead'' :: string ToolResult))"
    by (simp add: url)
  from get_market_not_found [OF i p n f500, where rt = sampleRuntime and tid = "''call-1''"]
  have r500: "get_market_execute sampleClient (sampleNetwork 500 ''Internal Server Error'' []) sampleRuntime
                ''call-1'' (marketParams ''0xdead'') =
              ([Initialize, Fetch (MarketRequest ''https://gamma'' ''0xdead'')],
               (errorResult ''Failed to fetch market: Internal Server Error'' :: string ToolResult))"
    by (simp add: url ok_def)
  show ?thesis
    using i p f404 r404 r500 by simp
qed

text \<open>
  The claim as stated fails: on a 404 the result carries the error flag, like the result
  of a server failure.
\<close>

theorem get_market_not_found_counterexample:
  "status \<lparr>status = 404, statusText = ''Not Found'', json = (Inr None :: string + GammaMarket option)\<rparr> = 404 \<and>
   fetch_one (sampleNetwork 404 ''Not Found'' []) (MarketRequest ''https://gamma'' ''0xdead'') =
     Inr \<lparr>status = 404, statusText = ''Not Found'', json = Inr None\<rparr> \<and>
   get_market_execute sampleClient (sampleNetwork 404 ''Not Found'' []) sampleRuntime ''call-1''
       (marketParams ''0xdead'') =
     ([Initialize, Fetch (MarketRequest ''https://gamma'' ''0xdead'')],
      \<lparr>content = ErrorData ''Market not found: 0xdead'', isError = True\<rparr>) \<and>
   isError (snd (get_market_execute sampleClient (sampleNetwork 404 ''Not Found'' []) sampleRuntime ''call-1''
       (marketParams ''0xdead'') :: string call list \<times> string ToolResult))"
  by (simp add: get_market_execute_def fetchGammaMarket_def io_defs truthyStr_def asString_def ok_def
      errorResult_def toolResult_def Let_def sampleClient_def sampleNetwork_def marketParams_def
      emptyParams_def)

subsection \<open>Listing markets\<close>

lemma set_slice0: "set (slice0 xs e) \<subseteq> set xs"
  by (cases e) (auto simp: slice0_def Let_def dest: in_set_takeD)

lemma length_slice0:
  assumes "0 \<le> q"
  shows "int (length (slice0 xs (Finite q))) \<le> \<lfloor>q\<rfloor>"
proof -
  from assms have nonneg: "0 \<le> \<lfloor>q\<rfloor>" by simp
  have "length (slice0 xs (Finite q)) \<le> nat \<lfloor>q\<rfloor>"
    using assms by (simp add: slice0_def Let_def)
  with nonneg show ?thesis by linarith
qed

text \<open>
  What the filter and the truncation of \<open>fetchGammaMarkets\<close> guarantee: every market
  returned is open and has a truthy \<open>clobTokenIds\<close> property, and for a limit that is a
  non-negative number there are at most that many.
\<close>

lemma fetchGammaMarkets_filtered:
  assumes "fetchGammaMarkets client net limit offset search = (t, Inr ms)"
  shows "(\<forall>m \<in> set ms. \<not> closed m \<and> truthy (clobTokenIds m)) \<and>
         (\<forall>q. limit = Finite q \<and> 0 \<le> q \<longrightarrow> int (length ms) \<le> \<lfloor>q\<rfloor>)"
proof -
  let ?req = "MarketsRequest (getGammaApiUrl client) (numTimes limit (Finite 3)) offset
                (if truthyStr search then Some (toLowerCase (asString search)) else None)"
  from assms obtain response where r: "fetch_list net ?req = Inr response"
    by (cases "fetch_list net ?req") (auto simp: fetchGammaMarkets_def io_defs Let_def)
  from assms r have okr: "ok response"
    by (auto simp: fetchGammaMarkets_def io_defs Let_def split: if_splits)
  from assms r okr obtain data where d: "json response = Inr data"
    by (cases "json response") (auto simp: fetchGammaMarkets_def io_defs Let_def)
  show ?thesis
  proof (cases data)
    case None
    with assms r okr d show ?thesis
      by (auto simp: fetchGammaMarkets_def io_defs Let_def)
  next
    case (Some page)
    with assms r okr d have ms: "ms = slice0 (filter (\<lambda>m. \<not> closed m \<and> truthy (clobTokenIds m)) page) limit"
      by (auto simp: fetchGammaMarkets_def io_defs Let_def)
    show ?thesis
      using set_slice0 [of "filter (\<lambda>m. \<not> closed m \<and> truthy (clobTokenIds m)) page" limit]
      by (auto simp: ms length_slice0)
  qed
qed

lemma numTimes_5_3: "numTimes (Finite 5) (Finite 3) = Finite 15"
  by code_simp

text \<open>
  C5.  An open market whose \<open>clobTokenIds\<close> is the empty array passes the filter, for
  an array is truthy even when empty: the tool returns it, and its tokens have no token id.
\<close>

theorem get_markets_keeps_market_without_token_ids:
  "\<not> closed emptyIdsMarket \<and> clobTokenIds emptyIdsMarket = Arr [] \<and>
   get_markets_execute sampleClient (sampleNetwork 200 ''OK'' [emptyIdsMarket]) sampleRuntime ''call-1''
       (emptyParams\<lparr>p_limit := Some (Finite 5)\<rparr>) =
     ([Initialize, Fetch (MarketsRequest ''https://gamma'' (Finite 15) (Finite 0) None)],
      toolResult
        (MarketsData
          [\<lparr>condition_id = ''0xc1'', m_question = ''Will it rain?'',
            tokens = [\<lparr>token_id = JStr [], outcome = Some (JStr ''Yes''), price = Finite (1 / 2)\<rparr>,
                      \<lparr>token_id = JStr [], outcome = Some (JStr ''No''), price = Finite (1 / 4)\<rparr>],
            m_volume = ''1000'', end_date = ''2026-01-01'', m_active = True, m_closed = False\<rparr>])
        False)"
proof -
  have opened: "\<not> closed emptyIdsMarket" and ids: "clobTokenIds emptyIdsMarket = Arr []"
    by (simp_all add: emptyIdsMarket_def sampleMarket_def)
  have "formatMarket sampleRuntime emptyIdsMarket =
        Inr \<lparr>condition_id = conditionId emptyIdsMarket,
             m_question = question emptyIdsMarket,
             tokens = map (tokenAt [''Yes'', ''No''] [''0.5'', ''0.25''] []) [0..<length [''Yes'', ''No'']],
             m_volume = orStr (Some (volume emptyIdsMarket)) ''0'',
             end_date = orStr (Some (endDate emptyIdsMarket)) [],
             m_active = active emptyIdsMarket,
             m_closed = closed emptyIdsMarket\<rparr>"
    by (rule formatMarket_strings) (simp_all add: parseJsonField_def emptyIdsMarket_def sampleMarket_def)
  then have formatted: "formatMarket sampleRuntime emptyIdsMarket =
        Inr \<lparr>condition_id = ''0xc1'', m_question = ''Will it rain?'',
             tokens = [\<lparr>token_id = JStr [], outcome = Some (JStr ''Yes''), price = Finite (1 / 2)\<rparr>,
                       \<lparr>token_id = JStr [], outcome = Some (JStr ''No''), price = Finite (1 / 4)\<rparr>],
             m_volume = ''1000'', end_date = ''2026-01-01'', m_active = True, m_closed = False\<rparr>"
    by (simp add: emptyIdsMarket_def sampleMarket_def tokenAt_def upt_0_2 parseFloat_half
        parseFloat_quarter orStr_def truthyStr_def)
  show ?thesis
    using opened ids
    by (simp add: get_markets_execute_def fetchGammaMarkets_def io_defs Let_def sampleClient_def
        sampleNetwork_def emptyParams_def orNum_def truthyNum_def truthyStr_def numTimes_5_3 ok_def
        truthy_def slice0_def formatted)
qed

section \<open>Properties of plugin activation\<close>

lemma createPolymarketTools_names:
  "map name (createPolymarketTools client net rt) =
     [''polymarket_get_markets'', ''polymarket_get_market'', ''polymarket_get_orderbook'',
      ''polymarket_get_balance'', ''polymarket_get_positions'', ''polymarket_get_trades'',
      ''polymarket_place_order'', ''polymarket_cancel_order'']"
  by (simp add: createPolymarketTools_def)

lemma register_loop_registry:
  "registry (register_loop config tools ctx) =
     registry ctx @
     map registered
       (filter (\<lambda>tool. \<not> (readonly config \<and>
                  (name tool = ''polymarket_place_order'' \<or> name tool = ''polymarket_cancel_order''))) tools)"
  by (induction tools arbitrary: ctx) (simp_all add: registerTool_def)

text \<open>
  C3.  When a private key is configured, \<open>createConfig\<close> and the client constructor
  succeed, and the configuration built has \<open>readonly\<close> set, \<open>activate\<close> registers the
  six read tools, wrapped, in the order of \<open>createPolymarketTools\<close>, and nothing else:
  neither \<open>polymarket_place_order\<close> nor \<open>polymarket_cancel_order\<close>.  The flag is
  read in the registration loop only; a registered tool runs the \<open>execute\<close> of its tool.
\<close>

theorem activate_readonly_registry:
  assumes "pc = (case pluginConfig ctx of None \<Rightarrow> emptyPluginConfig | Some c \<Rightarrow> c)"
    and "key = orStrOpt (pc_privateKey pc) (POLYMARKET_PRIVATE_KEY env)"
    and "truthyStr key"
    and "createConfig (configInput pc env (asString key)) = Inr config"
    and "newClient config = Inr client"
    and "readonly config"
  shows "registry (activate createConfig newClient net rt env ctx) =
           registry ctx @ map registered (take 6 (createPolymarketTools client net rt)) \<and>
         map reg_name (registry (activate createConfig newClient net rt env ctx)) =
           map reg_name (registry ctx) @
             [''polymarket_get_markets'', ''polymarket_get_market'', ''polymarket_get_orderbook'',
              ''polymarket_get_balance'', ''polymarket_get_positions'', ''polymarket_get_trades'']"
proof -
  let ?tools = "createPolymarketTools client net rt"
  have act: "activate createConfig newClient net rt env ctx = register_loop config ?tools ctx"
    using assms by (simp add: activate_def Let_def)
  have kept: "filter (\<lambda>tool. \<not> (readonly config \<and>
                  (name tool = ''polymarket_place_order'' \<or> name tool = ''polymarket_cancel_order''))) ?tools =
              take 6 ?tools"
    using assms(6) by (simp add: createPolymarketTools_def)
  have reg: "registry (activate createConfig newClient net rt env ctx) = registry ctx @ map registered (take 6 ?tools)"
    by (simp only: act register_loop_registry kept)
  have names: "map reg_name (map registered (take 6 ?tools)) =
           [''polymarket_get_markets'', ''polymarket_get_market'', ''polymarket_get_orderbook'',
            ''polymarket_get_balance'', ''polymarket_get_positions'', ''polymarket_get_trades'']"
    by (simp add: createPolymarketTools_def registered_def)
  show ?thesis
    using reg names by simp
qed

theorem activate_readonly_registry_witness:
  "truthyStr (Some ''0xkey'') \<and> readonly \<lparr>readonly = True\<rparr> \<and>
   sampleCreateConfig (configInput samplePluginConfig sampleEnv ''0xkey'') = Inr \<lparr>readonly = True\<rparr> \<and>
   map reg_name (registry (activate sampleCreateConfig sampleNewClient (sampleNetwork 200 ''OK'' [])
                   sampleRuntime sampleEnv sampleContext)) =
     [''polymarket_get_markets'', ''polymarket_get_market'', ''polymarket_get_orderbook'',
      ''polymarket_get_balance'', ''polymarket_get_positions'', ''polymarket_get_trades'']"
proof -
  have pc: "samplePluginConfig = (case pluginConfig sampleContext of None \<Rightarrow> emptyPluginConfig | Some c \<Rightarrow> c)"
    by (simp add: sampleContext_def)
  have key: "Some ''0xkey'' = orStrOpt (pc_privateKey samplePluginConfig) (POLYMARKET_PRIVATE_KEY sampleEnv)"
    by (simp add: samplePluginConfig_def emptyPluginConfig_def orStrOpt_def truthyStr_def)
  have tk: "truthyStr (Some ''0xkey'')"
    by (simp add: truthyStr_def)
  have cfg: "sampleCreateConfig (configInput samplePluginConfig sampleEnv (asString (Some ''0xkey''))) = Inr \<lparr>readonly = True\<rparr>"
    by (simp add: sampleCreateConfig_def configInput_def samplePluginConfig_def emptyPluginConfig_def orBool_def)
  have cl: "sampleNewClient \<lparr>readonly = True\<rparr> = Inr sampleClient"
    by (simp add: sampleNewClient_def)
  have ro: "readonly \<lparr>readonly = True\<rparr>"
    by simp
  from activate_readonly_registry [where createConfig = sampleCreateConfig and newClient = sampleNewClient
      and net = "sampleNetwork 200 ''OK'' []" and rt = sampleRuntime and env = sampleEnv
      and ctx = sampleContext and pc = samplePluginConfig and key = "Some ''0xkey''"
      and config = "\<lparr>readonly = True\<rparr>" and client = sampleClient, OF pc key tk cfg cl ro]
  have "map reg_name (registry (activate sampleCreateConfig sampleNewClient (sampleNetwork 200 ''OK'' [])
                   sampleRuntime sampleEnv sampleContext)) =
     map reg_name (registry sampleContext) @
     [''polymarket_get_markets'', ''polymarket_get_market'', ''polymarket_get_orderbook'',
      ''polymarket_get_balance'', ''polymarket_get_positions'', ''polymarket_get_trades'']"
    by blast
  then show ?thesis
    using tk ro cfg by (simp add: sampleContext_def asString_def)
qed

section \<open>Properties of the write tools\<close>

lemma fst_guarded: "fst (guarded m) = fst m"
  by (simp add: guarded_def split: sum.split)

lemma fst_andThen: "fst (andThen m f) = fst m @ (case snd m of Inl e \<Rightarrow> [] | Inr x \<Rightarrow> fst (f x))"
  by (simp add: andThen_def split: sum.split)

lemma marketMetadata_calls: "fst (marketMetadata client t) = [GetMarket t]"
  by (simp add: marketMetadata_def split: sum.split)

lemma marketMetadata_returns: "\<exists>v. snd (marketMetadata client t) = Inr v"
  by (cases "getMarket client t") (auto simp add: marketMetadata_def)

lemma place_order_rejects:
  assumes "initialize client = Inr ()" and "ensureWriteAccess client = Inr ()"
    and "validationError params = Some msg"
  shows "place_order_execute client rt tid params = ([Initialize, EnsureWriteAccess], errorResult msg)"
  using assms
  by (auto simp add: place_order_execute_def validationError_def io_defs Let_def split: if_splits)

lemma place_order_calls_when_invalid:
  assumes "validationError params = Some msg"
  shows "set (fst (place_order_execute client rt tid params)) \<subseteq> {Initialize, EnsureWriteAccess}"
proof (cases "initialize client")
  case (Inl e)
  then show ?thesis by (simp add: place_order_execute_def io_defs)
next
  case init: (Inr u)
  show ?thesis
  proof (cases "ensureWriteAccess client")
    case (Inl e)
    with init show ?thesis by (simp add: place_order_execute_def io_defs)
  next
    case (Inr v)
    with init assms show ?thesis
      by (simp add: place_order_rejects)
  qed
qed

lemma cancel_order_rejects:
  assumes "initialize client = Inr ()" and "ensureWriteAccess client = Inr ()"
    and "\<not> truthyStr (p_order_id params)"
  shows "cancel_order_execute client tid params = ([Initialize, EnsureWriteAccess], errorResult ''order_id is required'')"
  using assms by (simp add: cancel_order_execute_def io_defs Let_def)

lemma cancel_order_calls_when_invalid:
  assumes "\<not> truthyStr (p_order_id params)"
  shows "set (fst (cancel_order_execute client tid params)) \<subseteq> {Initialize, EnsureWriteAccess}"
proof (cases "initialize client")
  case (Inl e)
  then show ?thesis by (simp add: cancel_order_execute_def io_defs)
next
  case init: (Inr u)
  show ?thesis
  proof (cases "ensureWriteAccess client")
    case (Inl e)
    with init show ?thesis by (simp add: cancel_order_execute_def io_defs)
  next
    case (Inr v)
    with init assms show ?thesis
      by (simp add: cancel_order_rejects)
  qed
qed

lemma no_trading_call: "set cs \<subseteq> {Initialize, EnsureWriteAccess} \<Longrightarrow> \<not> list_ex tradingCall cs"
  by (auto simp: list_ex_iff)

lemma place_order_passes:
  assumes "initialize client = Inr ()" and "ensureWriteAccess client = Inr ()"
    and "validationError params = None"
  shows "take 4 (fst (place_order_execute client rt tid params)) =
           [Initialize, EnsureWriteAccess, GetMarket (asString (p_token_id params)),
            CreateOrder \<lparr>tokenID = asString (p_token_id params),
                         a_side = (if asString (p_side params) = ''BUY'' then BUY else SELL),
                         a_size = parseFloat (asString (p_size params)),
                         a_price = parseFloat (asString (p_price params)),
                         feeRateBps = Finite 0\<rparr>]"
proof -
  obtain v where v: "snd (marketMetadata client (asString (p_token_id params))) = Inr v"
    using marketMetadata_returns by blast
  obtain tickSize negRisk where tn: "v = (tickSize, negRisk)"
    by (cases v)
  from assms(3) have checks:
    "truthyStr (p_token_id params)" "truthyStr (p_side params)"
    "\<not> (isNaN (parseFloat (asString (p_size params))) \<or> numLess (parseFloat (asString (p_size params))) (Finite 5))"
    "\<not> (isNaN (parseFloat (asString (p_price params))) \<or>
        numLessEq (parseFloat (asString (p_price params))) (Finite 0) \<or>
        numGreaterEq (parseFloat (asString (p_price params))) (Finite 1))"
    by (simp_all add: validationError_def split: if_splits)
  show ?thesis
    using assms(1,2) checks v tn
    by (simp add: place_order_execute_def fst_guarded fst_andThen invoke_def Let_def marketMetadata_calls)
qed

text \<open>
  C1, as the code has it.  When a check of \<open>polymarket_place_order\<close> fails (token id
  or side missing or empty, size not a number or below 5, price not a number or outside
  the open interval from 0 to 1), and when the order id of \<open>polymarket_cancel_order\<close>
  is missing or empty, the tool calls nothing but \<open>initialize\<close> and
  \<open>ensureWriteAccess\<close> of the client, which run before the checks: no market
  metadata is fetched, no order is created, posted or cancelled.  When these two calls
  succeed, the tool returns the error envelope of the failed check.
\<close>

theorem write_tools_validate_before_trading:
  "(validationError params = Some msg \<longrightarrow>
      set (fst (place_order_execute client rt tid params)) \<subseteq> {Initialize, EnsureWriteAccess} \<and>
      \<not> list_ex tradingCall (fst (place_order_execute client rt tid params)) \<and>
      (initialize client = Inr () \<and> ensureWriteAccess client = Inr () \<longrightarrow>
         rejected msg (place_order_execute client rt tid params))) \<and>
   (\<not> truthyStr (p_order_id params) \<longrightarrow>
      set (fst (cancel_order_execute client tid params)) \<subseteq> {Initialize, EnsureWriteAccess} \<and>
      \<not> list_ex tradingCall (fst (cancel_order_execute client tid params)) \<and>
      (initialize client = Inr () \<and> ensureWriteAccess client = Inr () \<longrightarrow>
         rejected ''order_id is required'' (cancel_order_execute client tid params)))"
  by (simp add: place_order_calls_when_invalid cancel_order_calls_when_invalid no_trading_call
      place_order_rejects cancel_order_rejects rejected_def)

theorem write_tools_validate_before_trading_witness:
  "validationError emptyParams = Some ''token_id is required'' \<and>
   \<not> truthyStr (p_order_id emptyParams) \<and>
   initialize sampleClient = Inr () \<and> ensureWriteAccess sampleClient = Inr () \<and>
   rejected ''token_id is required'' (place_order_execute sampleClient sampleRuntime ''call-1'' emptyParams) \<and>
   rejected ''order_id is required'' (cancel_order_execute sampleClient ''call-1'' emptyParams) \<and>
   set (fst (place_order_execute failingClient sampleRuntime ''call-1'' emptyParams)) \<subseteq> {Initialize, EnsureWriteAccess} \<and>
   set (fst (cancel_order_execute failingClient ''call-1'' emptyParams)) \<subseteq> {Initialize, EnsureWriteAccess}"
proof -
  have v: "validationError emptyParams = Some ''token_id is required''"
    by (simp add: validationError_def emptyParams_def truthyStr_def)
  have o: "\<not> truthyStr (p_order_id emptyParams)"
    by (simp add: emptyParams_def truthyStr_def)
  have i: "initialize sampleClient = Inr ()" and e: "ensureWriteAccess sampleClient = Inr ()"
    by (simp_all add: sampleClient_def)
  note ok = write_tools_validate_before_trading [where params = emptyParams and msg = "''token_id is required''"
      and client = sampleClient and rt = sampleRuntime and tid = "''call-1''"]
  note down = write_tools_validate_before_trading [where params = emptyParams and msg = "''token_id is required''"
      and client = failingClient and rt = sampleRuntime and tid = "''call-1''"]
  show ?thesis
    using v o i e ok down by simp
qed

text \<open>
  The claim as stated fails: two calls of the client precede the checks, and when the
  first of them throws, the tool returns its error and not the validation error.
\<close>

theorem validation_after_initialize_counterexample:
  "validationError emptyParams = Some ''token_id is required'' \<and>
   place_order_execute sampleClient sampleRuntime ''call-1'' emptyParams =
     ([Initialize, EnsureWriteAccess], errorResult ''token_id is required'') \<and>
   place_order_execute failingClient sampleRuntime ''call-1'' emptyParams =
     ([Initialize], errorResult ''credentials rejected'') \<and>
   (errorResult ''credentials rejected'' :: string ToolResult) \<noteq> errorResult ''token_id is required'' \<and>
   \<not> truthyStr (p_order_id emptyParams) \<and>
   cancel_order_execute sampleClient ''call-1'' emptyParams =
     ([Initialize, EnsureWriteAccess], errorResult ''order_id is required'') \<and>
   cancel_order_execute failingClient ''call-1'' emptyParams =
     ([Initialize], errorResult ''credentials rejected'')"
  by (simp add: validationError_def place_order_execute_def cancel_order_execute_def io_defs Let_def
      emptyParams_def truthyStr_def sampleClient_def failingClient_def errorResult_def toolResult_def)

subsection \<open>The checks on size and price\<close>

lemma rejected_iff:
  assumes "initialize client = Inr ()" and "ensureWriteAccess client = Inr ()"
  shows "rejected msg (place_order_execute client rt tid params :: 's call list \<times> 'r ToolResult) \<longleftrightarrow>
         validationError params = Some msg"
proof (cases "validationError params")
  case None
  from place_order_passes [OF assms None, of rt tid]
  have "fst (place_order_execute client rt tid params :: 's call list \<times> 'r ToolResult) \<noteq> [Initialize, EnsureWriteAccess]"
    by auto
  with None show ?thesis
    by (auto simp: rejected_def)
next
  case (Some m)
  from place_order_rejects [OF assms Some, of rt tid] Some show ?thesis
    by (auto simp: rejected_def errorResult_def toolResult_def)
qed

lemma accepted_iff:
  assumes "initialize client = Inr ()" and "ensureWriteAccess client = Inr ()"
  shows "accepted params (place_order_execute client rt tid params :: 's call list \<times> 'r ToolResult) \<longleftrightarrow>
         validationError params = None"
proof (cases "validationError params")
  case None
  from place_order_passes [OF assms None, of rt tid]
  have "take 3 (take 4 (fst (place_order_execute client rt tid params :: 's call list \<times> 'r ToolResult))) =
          [Initialize, EnsureWriteAccess, GetMarket (asString (p_token_id params))]"
    by simp
  with None show ?thesis
    by (simp add: accepted_def)
next
  case (Some m)
  from place_order_rejects [OF assms Some, of rt tid] Some show ?thesis
    by (simp add: accepted_def)
qed

lemma size_passes_iff:
  "\<not> (isNaN s \<or> numLess s (Finite 5)) \<longleftrightarrow> s = PosInf \<or> (\<exists>q. s = Finite q \<and> 5 \<le> q)"
  by (cases s) (auto simp: isNaN_def)

lemma price_passes_iff:
  "\<not> (isNaN p \<or> numLessEq p (Finite 0) \<or> numGreaterEq p (Finite 1)) \<longleftrightarrow> (\<exists>q. p = Finite q \<and> 0 < q \<and> q < 1)"
  by (cases p) (auto simp: isNaN_def numGreaterEq_def)

lemma parseFloat_4_99: "parseFloat ''4.99'' = Finite (2809120267572347 / 562949953421312)"
  by code_simp

lemma parseFloat_5: "parseFloat ''5'' = Finite 5"
  by code_simp

lemma parseFloat_0: "parseFloat ''0'' = Finite 0"
  by code_simp

lemma parseFloat_1: "parseFloat ''1'' = Finite 1"
  by code_simp

lemma parseFloat_0_50: "parseFloat ''0.50'' = Finite (1 / 2)"
  by code_simp

lemma parseFloat_Infinity: "parseFloat ''Infinity'' = PosInf"
  by code_simp

lemma parseFloat_10: "parseFloat ''10'' = Finite 10"
  by code_simp

text \<open>
  C2, as the code has it.  With the client ready and token id and side given, the order
  is rejected with \<open>size must be at least 5\<close> exactly when the size does not parse to a
  number that is at least 5 (\<open>+Infinity\<close> is such a number), rejected with
  \<open>price must be between 0 and 1 (exclusive)\<close> exactly when the size passes and the
  price does not parse to a number strictly between 0 and 1, and accepted otherwise.
  Size \<open>4.99\<close> is rejected and size \<open>5\<close> with price \<open>0.50\<close> is accepted; with size
  \<open>5\<close>, the prices \<open>0\<close> and \<open>1\<close> are rejected.
\<close>

theorem place_order_size_and_price_checks:
  assumes "initialize client = Inr ()" and "ensureWriteAccess client = Inr ()"
    and "truthyStr (p_token_id params)" and "truthyStr (p_side params)"
    and "sz = asString (p_size params)" and "pr = asString (p_price params)"
    and "out = (place_order_execute client rt tid params :: 's call list \<times> 'r ToolResult)"
  shows "(rejected ''size must be at least 5'' out \<longleftrightarrow>
            \<not> (parseFloat sz = PosInf \<or> (\<exists>q. parseFloat sz = Finite q \<and> 5 \<le> q))) \<and>
         (rejected ''price must be between 0 and 1 (exclusive)'' out \<longleftrightarrow>
            (parseFloat sz = PosInf \<or> (\<exists>q. parseFloat sz = Finite q \<and> 5 \<le> q)) \<and>
            \<not> (\<exists>q. parseFloat pr = Finite q \<and> 0 < q \<and> q < 1)) \<and>
         (accepted params out \<longleftrightarrow>
            (parseFloat sz = PosInf \<or> (\<exists>q. parseFloat sz = Finite q \<and> 5 \<le> q)) \<and>
            (\<exists>q. parseFloat pr = Finite q \<and> 0 < q \<and> q < 1)) \<and>
         (sz = ''4.99'' \<longrightarrow> rejected ''size must be at least 5'' out) \<and>
         (sz = ''5'' \<and> pr = ''0.50'' \<longrightarrow> accepted params out) \<and>
         (sz = ''5'' \<and> pr = ''0'' \<longrightarrow> rejected ''price must be between 0 and 1 (exclusive)'' out) \<and>
         (sz = ''5'' \<and> pr = ''1'' \<longrightarrow> rejected ''price must be between 0 and 1 (exclusive)'' out)"
proof -
  let ?sizeOk = "parseFloat sz = PosInf \<or> (\<exists>q. parseFloat sz = Finite q \<and> 5 \<le> q)"
  let ?priceOk = "\<exists>q. parseFloat pr = Finite q \<and> 0 < q \<and> q < 1"
  have verdict: "validationError params =
      (if \<not> ?sizeOk then Some ''size must be at least 5''
       else if \<not> ?priceOk then Some ''price must be between 0 and 1 (exclusive)'' else None)"
  proof -
    have s: "(isNaN (parseFloat sz) \<or> numLess (parseFloat sz) (Finite 5)) = (\<not> ?sizeOk)"
      using size_passes_iff [of "parseFloat sz"] by blast
    have p: "(isNaN (parseFloat pr) \<or> numLessEq (parseFloat pr) (Finite 0) \<or> numGreaterEq (parseFloat pr) (Finite 1)) =
             (\<not> ?priceOk)"
      using price_passes_iff [of "parseFloat pr"] by blast
    show ?thesis
      using assms(3,4) by (simp add: validationError_def assms(5,6) [symmetric] s p)
  qed
  have r1: "rejected ''size must be at least 5'' out \<longleftrightarrow> \<not> ?sizeOk"
    unfolding assms(7) rejected_iff [OF assms(1,2)] verdict by auto
  have r2: "rejected ''price must be between 0 and 1 (exclusive)'' out \<longleftrightarrow> ?sizeOk \<and> \<not> ?priceOk"
    unfolding assms(7) rejected_iff [OF assms(1,2)] verdict by auto
  have r3: "accepted params out \<longleftrightarrow> ?sizeOk \<and> ?priceOk"
    unfolding assms(7) accepted_iff [OF assms(1,2)] verdict by auto
  have e1: "sz = ''4.99'' \<longrightarrow> \<not> ?sizeOk"
    by (simp add: parseFloat_4_99)
  have e2: "sz = ''5'' \<longrightarrow> ?sizeOk"
    by (simp add: parseFloat_5)
  have e3: "pr = ''0.50'' \<longrightarrow> ?priceOk"
  proof
    assume "pr = ''0.50''"
    then have "parseFloat pr = Finite (1 / 2) \<and> (0::rat) < 1 / 2 \<and> (1::rat) / 2 < 1"
      by (simp add: parseFloat_0_50)
    then show ?priceOk by blast
  qed
  have e4: "pr = ''0'' \<longrightarrow> \<not> ?priceOk"
    by (simp add: parseFloat_0)
  have e5: "pr = ''1'' \<longrightarrow> \<not> ?priceOk"
    by (simp add: parseFloat_1)
  show ?thesis
    using r1 r2 r3 e1 e2 e3 e4 e5 by blast
qed

theorem place_order_size_and_price_checks_witness:
  "initialize sampleClient = Inr () \<and> ensureWriteAccess sampleClient = Inr () \<and>
   truthyStr (p_token_id (orderParams ''tok'' ''BUY'' ''5'' ''0.50'')) \<and>
   truthyStr (p_side (orderParams ''tok'' ''BUY'' ''5'' ''0.50'')) \<and>
   accepted (orderParams ''tok'' ''BUY'' ''5'' ''0.50'')
     (place_order_execute sampleClient sampleRuntime ''call-1'' (orderParams ''tok'' ''BUY'' ''5'' ''0.50'')) \<and>
   rejected ''size must be at least 5''
     (place_order_execute sampleClient sampleRuntime ''call-1'' (orderParams ''tok'' ''BUY'' ''4.99'' ''0.50'')) \<and>
   rejected ''price must be between 0 and 1 (exclusive)''
     (place_order_execute sampleClient sampleRuntime ''call-1'' (orderParams ''tok'' ''BUY'' ''5'' ''1''))"
proof -
  have i: "initialize sampleClient = Inr ()" and e: "ensureWriteAccess sampleClient = Inr ()"
    by (simp_all add: sampleClient_def)
  have t: "truthyStr (p_token_id (orderParams ''tok'' ''BUY'' sz pr))"
    and s: "truthyStr (p_side (orderParams ''tok'' ''BUY'' sz pr))"
    and z: "sz = asString (p_size (orderParams ''tok'' ''BUY'' sz pr))"
    and p: "pr = asString (p_price (orderParams ''tok'' ''BUY'' sz pr))" for sz pr
    by (simp_all add: orderParams_def emptyParams_def truthyStr_def asString_def)
  note th = place_order_size_and_price_checks [where client = sampleClient and rt = sampleRuntime
      and tid = "''call-1''", OF i e t s z p refl]
  from th [of "''5''" "''0.50''"] have a: "accepted (orderParams ''tok'' ''BUY'' ''5'' ''0.50'')
     (place_order_execute sampleClient sampleRuntime ''call-1'' (orderParams ''tok'' ''BUY'' ''5'' ''0.50''))"
    by blast
  from th [of "''4.99''" "''0.50''"] have b: "rejected ''size must be at least 5''
     (place_order_execute sampleClient sampleRuntime ''call-1'' (orderParams ''tok'' ''BUY'' ''4.99'' ''0.50''))"
    by blast
  from th [of "''5''" "''1''"] have c: "rejected ''price must be between 0 and 1 (exclusive)''
     (place_order_execute sampleClient sampleRuntime ''call-1'' (orderParams ''tok'' ''BUY'' ''5'' ''1''))"
    by blast
  show ?thesis
    using i e t s a b c by simp
qed

text \<open>
  The claim as stated fails: the size \<open>Infinity\<close> parses to a number that is not
  finite, passes the check, and is handed to \<open>createOrder\<close>.
\<close>

theorem size_infinity_counterexample:
  "parseFloat ''Infinity'' = PosInf \<and>
   validationError (orderParams ''tok'' ''BUY'' ''Infinity'' ''0.5'') = None \<and>
   place_order_execute sampleClient sampleRuntime ''call-1'' (orderParams ''tok'' ''BUY'' ''Infinity'' ''0.5'') =
     ([Initialize, EnsureWriteAccess, GetMarket ''tok'',
       CreateOrder \<lparr>tokenID = ''tok'', a_side = BUY, a_size = PosInf, a_price = Finite (1 / 2),
                    feeRateBps = Finite 0\<rparr>,
       PostOrder ''signed''],
      toolResult
        (OrderData
          \<lparr>order_id = ''0xabc'', order_status = ''live'', message = None,
           order_details =
             \<lparr>od_token_id = ''tok'', od_side = ''BUY'', od_size = ''Infinity'', od_price = ''0.5'',
              tick_size = tickDefault, od_neg_risk = False\<rparr>\<rparr>)
        False)"
  by (simp add: validationError_def place_order_execute_def io_defs Let_def marketMetadata_def
      orderParams_def emptyParams_def truthyStr_def asString_def isNaN_def numGreaterEq_def
      parseFloat_Infinity parseFloat_half sampleClient_def sampleRuntime_def sampleResponse_def orStr_def)

subsection \<open>Market metadata\<close>

lemma place_order_default_metadata:
  assumes "initialize client = Inr ()" and "ensureWriteAccess client = Inr ()"
    and "validationError params = None"
    and "tok = asString (p_token_id params)"
    and "getMarket client tok = Inl e"
    and "args = \<lparr>tokenID = tok,
                  a_side = (if asString (p_side params) = ''BUY'' then BUY else SELL),
                  a_size = parseFloat (asString (p_size params)),
                  a_price = parseFloat (asString (p_price params)),
                  feeRateBps = Finite 0\<rparr>"
    and "createOrder client args = Inr signedOrder"
    and "postOrder client signedOrder = Inr response"
  shows "place_order_execute client rt tid params =
           ([Initialize, EnsureWriteAccess, GetMarket tok, CreateOrder args, PostOrder signedOrder],
            toolResult
              (OrderData
                \<lparr>order_id = orStr (orderID response) [],
                 order_status = orStr (resp_status response) ''unknown'',
                 message = errorMsg response,
                 order_details =
                   \<lparr>od_token_id = tok,
                    od_side = asString (p_side params),
                    od_size = Number_toString rt (parseFloat (asString (p_size params))),
                    od_price = Number_toString rt (parseFloat (asString (p_price params))),
                    tick_size = tickDefault,
                    od_neg_risk = False\<rparr>\<rparr>)
              False)"
proof -
  from assms(3) have checks:
    "truthyStr (p_token_id params)" "truthyStr (p_side params)"
    "\<not> (isNaN (parseFloat (asString (p_size params))) \<or> numLess (parseFloat (asString (p_size params))) (Finite 5))"
    "\<not> (isNaN (parseFloat (asString (p_price params))) \<or>
        numLessEq (parseFloat (asString (p_price params))) (Finite 0) \<or>
        numGreaterEq (parseFloat (asString (p_price params))) (Finite 1))"
    by (simp_all add: validationError_def split: if_splits)
  have meta: "marketMetadata client (asString (p_token_id params)) =
                ([GetMarket (asString (p_token_id params))], Inr (tickDefault, False))"
    using assms(4,5) by (simp add: marketMetadata_def)
  show ?thesis
    using assms(1,2,7,8) checks
    unfolding assms(6) assms(4)
    by (simp add: place_order_execute_def io_defs Let_def meta)
qed

lemma tickDefault_value: "tickDefault = Finite (5764607523034235 / 576460752303423488)"
  by code_simp

lemma parseFloat_0_01: "parseFloat ''0.01'' = tickDefault"
  by code_simp

lemma get_markets_surfaces:
  assumes "c \<in> set (fst (get_markets_execute client net rt tid params))" and "upstreamFailure client net c"
  shows "isError (snd (get_markets_execute client net rt tid params))"
  using assms
  by (auto simp: get_markets_execute_def fetchGammaMarkets_def io_defs Let_def failedResponse_def
      isError_errorResult split: sum.splits if_splits option.splits)

lemma get_market_surfaces:
  assumes "c \<in> set (fst (get_market_execute client net rt tid params))" and "upstreamFailure client net c"
  shows "isError (snd (get_market_execute client net rt tid params))"
  using assms
  by (auto simp: get_market_execute_def fetchGammaMarket_def io_defs Let_def failedResponse_def
      isError_errorResult split: sum.splits if_splits option.splits)

lemma get_orderbook_surfaces:
  assumes "c \<in> set (fst (get_orderbook_execute client tid params))" and "upstreamFailure client net c"
  shows "isError (snd (get_orderbook_execute client tid params))"
  using assms
  by (auto simp: get_orderbook_execute_def io_defs Let_def isError_errorResult split: sum.splits if_splits)

lemma get_balance_surfaces:
  assumes "c \<in> set (fst (get_balance_execute client tid params))" and "upstreamFailure client net c"
  shows "isError (snd (get_balance_execute client tid params))"
  using assms
  by (auto simp: get_balance_execute_def io_defs Let_def isError_errorResult split: sum.splits if_splits)

lemma get_positions_surfaces:
  assumes "c \<in> set (fst (get_positions_execute client tid params))" and "upstreamFailure client net c"
  shows "isError (snd (get_positions_execute client tid params))"
  using assms
  by (auto simp: get_positions_execute_def io_defs Let_def isError_errorResult split: sum.splits if_splits)

lemma get_trades_surfaces:
  assumes "c \<in> set (fst (get_trades_execute client tid params))" and "upstreamFailure client net c"
  shows "isError (snd (get_trades_execute client tid params))"
  using assms
  by (auto simp: get_trades_execute_def io_defs Let_def isError_errorResult split: sum.splits if_splits)

lemma cancel_order_surfaces:
  assumes "c \<in> set (fst (cancel_order_execute client tid params))" and "upstreamFailure client net c"
  shows "isError (snd (cancel_order_execute client tid params))"
  using assms
  by (auto simp: cancel_order_execute_def io_defs Let_def isError_errorResult split: sum.splits if_splits)

lemma place_order_surfaces:
  assumes "c \<in> set (fst (place_order_execute client rt tid params))" and "upstreamFailure client net c"
    and "\<not> isGetMarket c"
  shows "isError (snd (place_order_execute client rt tid params))"
  using assms
  by (auto simp: place_order_execute_def io_defs Let_def marketMetadata_def isError_errorResult
      split: sum.splits if_splits)

lemma tools_surface_failures:
  assumes "tool \<in> set (createPolymarketTools client net rt)"
    and "c \<in> set (fst (execute tool tid params))"
    and "upstreamFailure client net c" and "\<not> isGetMarket c"
  shows "isError (snd (execute tool tid params))"
proof -
  from assms(1) consider
      "execute tool = get_markets_execute client net rt"
    | "execute tool = get_market_execute client net rt"
    | "execute tool = get_orderbook_execute client"
    | "execute tool = get_balance_execute client"
    | "execute tool = get_positions_execute client"
    | "execute tool = get_trades_execute client"
    | "execute tool = place_order_execute client rt"
    | "execute tool = cancel_order_execute client"
    by (auto simp: createPolymarketTools_def)
  then show ?thesis
  proof cases
    case 1
    with assms(2,3) show ?thesis by (simp add: get_markets_surfaces)
  next
    case 2
    with assms(2,3) show ?thesis by (simp add: get_market_surfaces)
  next
    case 3
    with assms(2,3) show ?thesis by (simp add: get_orderbook_surfaces)
  next
    case 4
    with assms(2,3) show ?thesis by (simp add: get_balance_surfaces)
  next
    case 5
    with assms(2,3) show ?thesis by (simp add: get_positions_surfaces)
  next
    case 6
    with assms(2,3) show ?thesis by (simp add: get_trades_surfaces)
  next
    case 7
    with assms(2,3,4) show ?thesis by (simp add: place_order_surfaces)
  next
    case 8
    with assms(2,3) show ?thesis by (simp add: cancel_order_surfaces)
  qed
qed

text \<open>
  C8.  When the parameters pass the checks and the market-metadata call throws, order
  placement goes on: it creates and posts the order and reports tick size \<open>0.01\<close> and
  negative risk \<open>false\<close> in the order details.  In every tool, the failure of any other
  call (a thrown error, a response that is not a 2xx, an unreadable body) ends in an
  error envelope.
\<close>

theorem metadata_failure_falls_back_to_defaults:
  "(initialize client = Inr () \<and> ensureWriteAccess client = Inr () \<and> validationError params = None \<and>
    tok = asString (p_token_id params) \<and> getMarket client tok = Inl e \<and>
    args = \<lparr>tokenID = tok,
            a_side = (if asString (p_side params) = ''BUY'' then BUY else SELL),
            a_size = parseFloat (asString (p_size params)),
            a_price = parseFloat (asString (p_price params)),
            feeRateBps = Finite 0\<rparr> \<and>
    createOrder client args = Inr signedOrder \<and> postOrder client signedOrder = Inr response \<longrightarrow>
      place_order_execute client rt tid params =
        ([Initialize, EnsureWriteAccess, GetMarket tok, CreateOrder args, PostOrder signedOrder],
         toolResult
           (OrderData
             \<lparr>order_id = orStr (orderID response) [],
              order_status = orStr (resp_status response) ''unknown'',
              message = errorMsg response,
              order_details =
                \<lparr>od_token_id = tok,
                 od_side = asString (p_side params),
                 od_size = Number_toString rt (parseFloat (asString (p_size params))),
                 od_price = Number_toString rt (parseFloat (asString (p_price params))),
                 tick_size = parseFloat ''0.01'',
                 od_neg_risk = False\<rparr>\<rparr>)
           False)) \<and>
   (\<forall>tool \<in> set (createPolymarketTools client net rt).
      \<forall>c \<in> set (fst (execute tool tid params)).
        upstreamFailure client net c \<and> \<not> isGetMarket c \<longrightarrow> isError (snd (execute tool tid params)))"
  using place_order_default_metadata [of client params tok e args signedOrder response rt tid]
    tools_surface_failures [of _ client net rt _ tid params]
  by (auto simp add: parseFloat_0_01)

theorem metadata_failure_falls_back_to_defaults_witness:
  "initialize sampleClient = Inr () \<and> ensureWriteAccess sampleClient = Inr () \<and>
   validationError (orderParams ''tok'' ''BUY'' ''10'' ''0.5'') = None \<and>
   getMarket sampleClient ''tok'' = Inl ''market info unavailable'' \<and>
   place_order_execute sampleClient sampleRuntime ''call-1'' (orderParams ''tok'' ''BUY'' ''10'' ''0.5'') =
     ([Initialize, EnsureWriteAccess, GetMarket ''tok'',
       CreateOrder \<lparr>tokenID = ''tok'', a_side = BUY, a_size = Finite 10, a_price = Finite (1 / 2),
                    feeRateBps = Finite 0\<rparr>,
       PostOrder ''signed''],
      toolResult
        (OrderData
          \<lparr>order_id = ''0xabc'', order_status = ''live'', message = None,
           order_details =
             \<lparr>od_token_id = ''tok'', od_side = ''BUY'', od_size = ''10'', od_price = ''0.5'',
              tick_size = Finite (5764607523034235 / 576460752303423488), od_neg_risk = False\<rparr>\<rparr>)
        False) \<and>
   upstreamFailure failingClient (sampleNetwork 200 ''OK'' []) Initialize \<and>
   isError (snd (place_order_execute failingClient sampleRuntime ''call-1'' (orderParams ''tok'' ''BUY'' ''10'' ''0.5'')))"
proof -
  let ?p = "orderParams ''tok'' ''BUY'' ''10'' ''0.5''"
  let ?args = "\<lparr>tokenID = ''tok'', a_side = BUY, a_size = Finite 10, a_price = Finite (1 / 2),
                 feeRateBps = Finite 0\<rparr>"
  have i: "initialize sampleClient = Inr ()" and w: "ensureWriteAccess sampleClient = Inr ()"
    and g: "getMarket sampleClient ''tok'' = Inl ''market info unavailable''"
    and c: "createOrder sampleClient ?args = Inr ''signed''"
    and po: "postOrder sampleClient ''signed'' = Inr sampleResponse"
    by (simp_all add: sampleClient_def)
  have v: "validationError ?p = None"
    by (simp add: validationError_def orderParams_def emptyParams_def truthyStr_def asString_def
        parseFloat_10 parseFloat_half isNaN_def numGreaterEq_def)
  have fields: "asString (p_token_id ?p) = ''tok''" "asString (p_side ?p) = ''BUY''"
    "parseFloat (asString (p_size ?p)) = Finite 10" "parseFloat (asString (p_price ?p)) = Finite (1 / 2)"
    by (simp_all add: orderParams_def emptyParams_def asString_def parseFloat_10 parseFloat_half)
  note th = metadata_failure_falls_back_to_defaults [where client = sampleClient and params = ?p
      and tok = "''tok''" and e = "''market info unavailable''" and args = ?args
      and signedOrder = "''signed''" and response = sampleResponse and rt = sampleRuntime
      and tid = "''call-1''"]
  have shown: "Number_toString sampleRuntime (Finite 10) = ''10''"
    "Number_toString sampleRuntime (Finite (1 / 2)) = ''0.5''"
    by (simp_all add: sampleRuntime_def)
  from th i w v g c po fields shown
  have run: "place_order_execute sampleClient sampleRuntime ''call-1'' ?p =
     ([Initialize, EnsureWriteAccess, GetMarket ''tok'', CreateOrder ?args, PostOrder ''signed''],
      toolResult
        (OrderData
          \<lparr>order_id = ''0xabc'', order_status = ''live'', message = None,
           order_details =
             \<lparr>od_token_id = ''tok'', od_side = ''BUY'', od_size = ''10'', od_price = ''0.5'',
              tick_size = Finite (5764607523034235 / 576460752303423488), od_neg_risk = False\<rparr>\<rparr>)
        False)"
    by (simp add: sampleResponse_def orStr_def parseFloat_0_01 tickDefault_value)
  let ?net = "sampleNetwork 200 ''OK'' []"
  let ?tool = "\<lparr>name = ''polymarket_place_order'', execute = place_order_execute failingClient sampleRuntime\<rparr>"
  have mem: "?tool \<in> set (createPolymarketTools failingClient ?net sampleRuntime)"
    by (simp add: createPolymarketTools_def)
  have tr: "Initialize \<in> set (fst (execute ?tool ''call-1'' ?p))"
    by (simp add: place_order_execute_def io_defs failingClient_def)
  have fl: "upstreamFailure failingClient ?net Initialize"
    by (simp add: failingClient_def)
  note th2 = metadata_failure_falls_back_to_defaults [where client = failingClient and net = ?net
      and rt = sampleRuntime and tid = "''call-1''" and params = ?p, THEN conjunct2, THEN bspec, OF mem,
      THEN bspec, OF tr]
  from th2 fl have err: "isError (snd (place_order_execute failingClient sampleRuntime ''call-1'' ?p))"
    by simp
  show ?thesis
    using i w v g run fl err by simp
qed

end
